theory Spec2Isabelle
  imports Main "HOL-Library.Sublist" "HOL-Library.List_Lexorder" "HOL-Library.Char_ord"
    "HOL-Library.Multiset"
begin

section \<open>Python strings\<close>

text \<open>
  Strings are \<open>string\<close>, lists of 8-bit characters, read as the code points U+0000 to
  U+00FF; text with other code points is outside the type. On this range the methods of
  \<open>str\<close> that \<open>loader.py\<close> calls are Python's: \<open>str.strip()\<close> removes the characters for
  which \<open>str.isspace()\<close> holds (codes 9-13, 28-32, 133 and 160), \<open>str.lower()\<close> moves the
  upper-case letters (A-Z, and 192-222 without the sign 215), \<open>str.upper()\<close> moves the
  lower-case letters (a-z, and 224-254 without the sign 247) and turns the sharp s (223)
  into \<open>SS\<close>. The upper-case forms of the two remaining lower-case letters, 181 and 255, lie
  beyond U+00FF; \<open>upper\<close> leaves them as they are. \<open>a in b\<close> on strings is \<open>sublist a b\<close>,
  \<open>b.endswith(a)\<close> is \<open>suffix a b\<close> and \<open>b.startswith(a)\<close> is \<open>prefix a b\<close>.
\<close>

definition is_space :: "char \<Rightarrow> bool" where
  "is_space c =
     (let n = (of_char c :: nat)
      in (9 \<le> n \<and> n \<le> 13) \<or> (28 \<le> n \<and> n \<le> 32) \<or> n = 133 \<or> n = 160)"

definition strip :: "string \<Rightarrow> string" where
  "strip s = rev (dropWhile is_space (rev (dropWhile is_space s)))"

definition lower_char :: "char \<Rightarrow> char" where
  "lower_char c =
     (let n = (of_char c :: nat)
      in if (65 \<le> n \<and> n \<le> 90) \<or> (192 \<le> n \<and> n \<le> 222 \<and> n \<noteq> 215)
         then char_of (n + 32) else c)"

definition upper_char :: "char \<Rightarrow> string" where
  "upper_char c =
     (let n = (of_char c :: nat)
      in if (97 \<le> n \<and> n \<le> 122) \<or> (224 \<le> n \<and> n \<le> 254 \<and> n \<noteq> 247)
         then [char_of (n - 32)]
         else if n = 223 then ''SS''
         else [c])"

definition lower :: "string \<Rightarrow> string" where
  "lower s = map lower_char s"

definition upper :: "string \<Rightarrow> string" where
  "upper s = concat (map upper_char s)"

text \<open>\<open>str(n)\<close> for an integer, and the format specification \<open>03d\<close>.\<close>

definition digit_char :: "nat \<Rightarrow> char" where
  "digit_char d = char_of (48 + d)"

fun nat_digits :: "nat \<Rightarrow> string" where
  "nat_digits n = (if n < 10 then [digit_char n] else nat_digits (n div 10) @ [digit_char (n mod 10)])"

declare nat_digits.simps [simp del]

definition str_int :: "int \<Rightarrow> string" where
  "str_int i = (if i < 0 then CHR ''-'' # nat_digits (nat (- i)) else nat_digits (nat i))"

definition format_03d :: "int \<Rightarrow> string" where
  "format_03d i =
     (if i < 0 then CHR ''-'' # replicate (2 - length (nat_digits (nat (- i)))) CHR ''0'' @ nat_digits (nat (- i))
      else replicate (3 - length (nat_digits (nat i))) CHR ''0'' @ nat_digits (nat i))"

text \<open>
  \<open>repr(s)\<close> of a string: in apostrophes, or in double quotes when the string holds an
  apostrophe and no double quote; the backslash, the chosen quote, newline, carriage return
  and tab are escaped with a backslash, every other character that is not printable as
  \<open>\xNN\<close>.
\<close>

definition hex_digit :: "nat \<Rightarrow> char" where
  "hex_digit d = (if d < 10 then char_of (48 + d) else char_of (87 + d))"

definition repr_char :: "char \<Rightarrow> char \<Rightarrow> string" where
  "repr_char quote c =
     (let n = (of_char c :: nat)
      in if n = 92 then [CHR 0x5C, CHR 0x5C]
         else if c = quote then [CHR 0x5C, quote]
         else if n = 10 then [CHR 0x5C, CHR ''n'']
         else if n = 13 then [CHR 0x5C, CHR ''r'']
         else if n = 9 then [CHR 0x5C, CHR ''t'']
         else if n < 32 \<or> (127 \<le> n \<and> n \<le> 160) \<or> n = 173
         then [CHR 0x5C, CHR ''x'', hex_digit (n div 16), hex_digit (n mod 16)]
         else [c])"

definition py_repr :: "string \<Rightarrow> string" where
  "py_repr s =
     (let quote = (if CHR 0x27 \<in> set s \<and> CHR 0x22 \<notin> set s then CHR 0x22 else CHR 0x27)
      in quote # concat (map (repr_char quote) s) @ [quote])"

fun join :: "string \<Rightarrow> string list \<Rightarrow> string" where
  "join sep [] = []"
| "join sep [x] = x"
| "join sep (x # y # ys) = x @ sep @ join sep (y # ys)"

abbreviation NL :: string where
  "NL \<equiv> [CHR 0x0A]"

section \<open>Exceptions\<close>

text \<open>
  The exceptions that matter to the control flow are the internal skip signal, the
  structured loader error (with its message and, for \<open>raise ... from exc\<close>, its cause), and
  any other \<open>Exception\<close>, given by its class name and its string form.
\<close>

datatype exn =
    SkipFile
  | HwpHwpxLoaderError string "exn option"
  | PyException string string

fun class_name :: "exn \<Rightarrow> string" where
  "class_name SkipFile = ''_SkipFile''"
| "class_name (HwpHwpxLoaderError message cause) = ''HwpHwpxLoaderError''"
| "class_name (PyException cls message) = cls"

fun exn_str :: "exn \<Rightarrow> string" where
  "exn_str SkipFile = []"
| "exn_str (HwpHwpxLoaderError message cause) = message"
| "exn_str (PyException cls message) = message"

fun is_loader_error :: "exn \<Rightarrow> bool" where
  "is_loader_error (HwpHwpxLoaderError message cause) = True"
| "is_loader_error e = False"

section \<open>Paths\<close>

text \<open>
  A \<open>pathlib.Path\<close> (of the POSIX flavour) is its string form \<open>str(path)\<close>. \<open>Path(s)\<close> keeps
  the root (\<open>/\<close>, or \<open>//\<close> for exactly two leading slashes), drops empty components and
  the component \<open>.\<close>, and prints as \<open>.\<close> when nothing is left. \<open>Path.name\<close> is the last
  component, or the empty string when there is none; \<open>Path.suffix\<close> is the part of the name
  from its last dot on, when that dot is neither the first nor the last character of the
  name, and the empty string otherwise. \<open>a / b\<close> joins as \<open>posixpath.join\<close> does and
  normalises the result. \<open>Path.with_suffix\<close> raises \<open>ValueError\<close> for a suffix that holds a
  separator, that does not start with a dot or is the dot alone, and for a path with an
  empty name.
\<close>

type_synonym path = string

fun split_on :: "char \<Rightarrow> string \<Rightarrow> string list" where
  "split_on sep [] = [[]]"
| "split_on sep (c # cs) =
     (if c = sep then [] # split_on sep cs
      else (case split_on sep cs of [] \<Rightarrow> [[c]] | part # parts \<Rightarrow> (c # part) # parts))"

definition path_root :: "string \<Rightarrow> string" where
  "path_root s =
     (if prefix ''//'' s \<and> \<not> prefix ''///'' s then ''//''
      else if prefix ''/'' s then ''/''
      else [])"

definition path_parts :: "string \<Rightarrow> string list" where
  "path_parts s = filter (\<lambda>part. part \<noteq> [] \<and> part \<noteq> ''.'') (split_on CHR ''/'' s)"

definition Path :: "string \<Rightarrow> path" where
  "Path s =
     (let printed = path_root s @ join ''/'' (path_parts s)
      in if printed = [] then ''.'' else printed)"

definition path_name :: "path \<Rightarrow> string" where
  "path_name p = (case path_parts p of [] \<Rightarrow> [] | parts \<Rightarrow> last parts)"

definition path_suffix :: "path \<Rightarrow> string" where
  "path_suffix p =
     (let name = path_name p;
          ext = rev (takeWhile (\<lambda>c. c \<noteq> CHR ''.'') (rev name))
      in if CHR ''.'' \<in> set name \<and> ext \<noteq> [] \<and> length ext + 1 < length name
         then CHR ''.'' # ext else [])"

definition posix_join :: "string \<Rightarrow> string \<Rightarrow> string" where
  "posix_join a b =
     (if prefix ''/'' b then b
      else if a = [] \<or> suffix ''/'' a then a @ b
      else a @ ''/'' @ b)"

definition path_join :: "path \<Rightarrow> string \<Rightarrow> path" where
  "path_join d n = Path (posix_join d n)"

definition with_suffix :: "path \<Rightarrow> string \<Rightarrow> exn + path" where
  "with_suffix p s =
     (if CHR ''/'' \<in> set s
      then Inl (PyException ''ValueError'' (''Invalid suffix '' @ py_repr s))
      else if (s \<noteq> [] \<and> \<not> prefix ''.'' s) \<or> s = ''.''
      then Inl (PyException ''ValueError'' (''Invalid suffix '' @ py_repr s))
      else if path_name p = []
      then Inl (PyException ''ValueError'' (''PosixPath('' @ py_repr p @ '') has an empty name''))
      else Inr (take (length p - length (path_suffix p)) p @ s))"

definition lstrip_dot :: "string \<Rightarrow> string" where
  "lstrip_dot s = dropWhile (\<lambda>c. c = CHR ''.'') s"

section \<open>Attribute probing\<close>

text \<open>
  The collaborator's objects are duck-typed. An attribute read with \<open>getattr(obj, name, d)\<close>
  is \<open>Absent\<close> (the default is used), \<open>IsNone\<close>, or \<open>Has v\<close>. Where the source treats an
  absent attribute and \<open>None\<close> alike, the attribute is an \<open>option\<close>. Attribute values that
  the source passes through \<open>_string\<close> are given by their string form.

  An attribute that the source passes through \<open>_safe_int\<close> is given by what \<open>int(value)\<close>
  does on it: it returns an integer, it raises \<open>TypeError\<close> or \<open>ValueError\<close> (as it does on
  \<open>None\<close>, the value of an absent attribute), or it raises another exception (such as the
  \<open>OverflowError\<close> of an infinite float). \<open>_safe_int\<close> catches the first two classes only.
\<close>

datatype 'a attr = Absent | IsNone | Has 'a

definition string_of :: "string option \<Rightarrow> string" where
  "string_of value = (case value of None \<Rightarrow> [] | Some s \<Rightarrow> s)"

definition getattr_string :: "string attr \<Rightarrow> string \<Rightarrow> string" where
  "getattr_string a dflt = (case a of Absent \<Rightarrow> dflt | IsNone \<Rightarrow> [] | Has s \<Rightarrow> s)"

datatype int_conversion = IntValue int | IntRejected | IntError exn

fun safe_int :: "int_conversion \<Rightarrow> exn + int option" where
  "safe_int (IntValue n) = Inr (Some n)"
| "safe_int IntRejected = Inr None"
| "safe_int (IntError e) =
     (if class_name e = ''TypeError'' \<or> class_name e = ''ValueError'' then Inr None else Inl e)"

section \<open>File type token\<close>

record file_type_obj =
  ft_str :: string
  ft_name :: "string option"
  ft_value :: "string option"

definition file_type_candidates :: "file_type_obj option \<Rightarrow> path \<Rightarrow> string list" where
  "file_type_candidates value file_path =
     (case value of
        None \<Rightarrow> []
      | Some v \<Rightarrow>
          [ft_str v]
          @ (case ft_name v of None \<Rightarrow> [] | Some name \<Rightarrow> [name])
          @ (case ft_value v of None \<Rightarrow> [] | Some raw_value \<Rightarrow> [raw_value]))
     @ [lstrip_dot (path_suffix file_path)]"

fun scan_candidates :: "string list \<Rightarrow> string option" where
  "scan_candidates [] = None"
| "scan_candidates (token # rest) =
     (let lowered = lower token in
      if sublist ''hwpx'' lowered then Some ''hwpx''
      else if sublist ''hwp5'' lowered \<or> lowered = ''hwp'' then Some ''hwp''
      else if suffix ''.hwpx'' lowered then Some ''hwpx''
      else if suffix ''.hwp'' lowered then Some ''hwp''
      else scan_candidates rest)"

definition normalize_file_type :: "file_type_obj option \<Rightarrow> path \<Rightarrow> string" where
  "normalize_file_type value file_path =
     (case scan_candidates (file_type_candidates value file_path) of
        Some token \<Rightarrow> token
      | None \<Rightarrow> lower (lstrip_dot (path_suffix file_path)))"

section \<open>Documents and effects\<close>

text \<open>
  A \<open>Document\<close> has a content string and a metadata dictionary. Metadata values are strings
  or integers.
\<close>

datatype mval = MStr string | MInt int

type_synonym metadata = "string \<rightharpoonup> mval"

record document =
  page_content :: string
  metadata :: metadata

text \<open>
  What a run does besides yielding documents, in order: the structured-extraction call on
  the reader, \<open>LOGGER.warning\<close> with the formatted message, the call of \<open>Path.mkdir\<close> on a
  directory and the call of \<open>image.save\<close> on an output path.
\<close>

datatype event = Extract | LogWarning string | Mkdir path | Save path

text \<open>
  A generator run to its end: the documents it yielded, the effects it performed and the
  exception that ended it, if one did.
\<close>

record outcome =
  docs :: "document list"
  events :: "event list"
  raised :: "exn option"

section \<open>The collaborator's objects\<close>

text \<open>
  A method of a handle is \<open>None\<close> when the handle lacks it, and otherwise what its call
  does: it returns a value or raises an exception.
\<close>

record table_style_obj =
  ts_name :: "string option"
  ts_str :: string

record extract_opts =
  paragraph_separator :: "string attr"
  table_style :: "table_style_obj option"
  table_delimiter :: "string attr"

record table_handle =
  row_count :: int_conversion
  col_count :: int_conversion
  to_csv :: "(string \<Rightarrow> exn + string) option"
  to_inline :: "(exn + string) option"
  to_markdown :: "(exn + string) option"
  rows :: "string attr"
  table_str :: string

record note_handle =
  note_type :: "string attr"
  note_number :: int_conversion
  note_text :: "string option"

record memo_handle =
  m_id :: "string option"
  m_memo_id :: "string option"
  m_author :: "string option"
  m_referenced_text :: "string option"
  m_text :: "string option"

datatype hyperlink =
    HSeq "string option list"
  | HDict "string \<rightharpoonup> string option"
  | HObj "string option" "string option"

record image_handle =
  img_filename :: "string option"
  img_format :: "string attr"
  img_save :: "(path \<Rightarrow> exn option) option"

record extraction_result =
  res_text :: "string option"
  res_tables :: "table_handle list option"
  res_notes :: "note_handle list option"
  res_memos :: "memo_handle list option"
  res_hyperlinks :: "hyperlink list option"

record reader =
  file_type :: "file_type_obj option"
  is_encrypted :: bool
  is_valid :: bool
  reader_text :: "string option"
  extract_text_with_notes :: "extract_opts option \<Rightarrow> exn + extraction_result"
  get_tables :: "(exn + table_handle list) option"
  get_images :: "(exn + image_handle list) option"

text \<open>
  The environment of a run: the file system (\<open>Path.exists\<close>, \<open>is_dir\<close>, \<open>is_file\<close>, what
  enumerating \<open>Path.glob\<close> of an accepted pattern gives, the result of \<open>mkdir\<close>), the parser
  library (\<open>Reader(str(path))\<close> after its import, and its installed version), the package
  version and the clock.
\<close>

record env =
  exists :: "path \<Rightarrow> bool"
  is_dir :: "path \<Rightarrow> bool"
  is_file :: "path \<Rightarrow> bool"
  glob :: "path \<Rightarrow> string \<Rightarrow> exn + path list"
  mkdir :: "path \<Rightarrow> exn option"
  parser_Reader :: "path \<Rightarrow> exn + reader"
  parser_dist_version :: "string option"
  version :: string
  utc_now_iso :: string

section \<open>Single-file loader\<close>

record loader_kwargs =
  mode :: string
  extract_options :: "extract_opts option"
  include_tables :: bool
  include_notes :: bool
  include_memos :: bool
  include_hyperlinks :: bool
  include_images :: bool
  images_dir :: "path option"
  image_document_mode :: string
  on_encrypted :: string
  on_invalid :: string
  on_error :: string
  extra_metadata :: metadata
  include_extracted_at :: bool

record loader = loader_kwargs +
  file_path :: path

definition validate_literal :: "string \<Rightarrow> string \<Rightarrow> string list \<Rightarrow> exn option" where
  "validate_literal value name allowed =
     (if value \<notin> set allowed
      then Some (PyException ''ValueError''
             (''Invalid '' @ name @ ''='' @ py_repr value @ ''. Expected one of: ''
              @ join '', '' (sort (remdups allowed))))
      else None)"

definition VALID_MODES :: "string list" where
  "VALID_MODES = [''single'', ''elements'']"

definition VALID_STATUS_POLICIES :: "string list" where
  "VALID_STATUS_POLICIES = [''raise'', ''skip'', ''placeholder'']"

definition VALID_ERROR_POLICIES :: "string list" where
  "VALID_ERROR_POLICIES = [''raise'', ''skip'', ''warn'']"

definition VALID_IMAGE_DOCUMENT_MODES :: "string list" where
  "VALID_IMAGE_DOCUMENT_MODES = [''metadata_only'', ''save_and_reference'']"

definition SUPPORTED_EXTENSIONS :: "string list" where
  "SUPPORTED_EXTENSIONS = [''.hwp'', ''.hwpx'']"

fun first_error :: "exn option list \<Rightarrow> exn option" where
  "first_error [] = None"
| "first_error (None # rest) = first_error rest"
| "first_error (Some e # rest) = Some e"

text \<open>
  The constructor validates the enumerated options in their order and stores the file path
  and the image directory as \<open>Path\<close> objects.
\<close>

definition HwpHwpxLoader_init :: "string \<Rightarrow> loader_kwargs \<Rightarrow> exn + loader" where
  "HwpHwpxLoader_init fp kw =
     (case first_error
        [validate_literal (mode kw) ''mode'' VALID_MODES,
         validate_literal (on_encrypted kw) ''on_encrypted'' VALID_STATUS_POLICIES,
         validate_literal (on_invalid kw) ''on_invalid'' VALID_STATUS_POLICIES,
         validate_literal (on_error kw) ''on_error'' VALID_ERROR_POLICIES,
         validate_literal (image_document_mode kw) ''image_document_mode'' VALID_IMAGE_DOCUMENT_MODES]
      of Some e \<Rightarrow> Inl e
       | None \<Rightarrow>
           Inr (loader_kwargs.extend (kw\<lparr>images_dir := map_option Path (images_dir kw)\<rparr>)
                  (loader.fields (Path fp))))"

subsection \<open>Common metadata and the status gate\<close>

definition parser_version :: "env \<Rightarrow> string" where
  "parser_version env = (case parser_dist_version env of Some v \<Rightarrow> v | None \<Rightarrow> ''unknown'')"

definition build_common_metadata :: "env \<Rightarrow> loader \<Rightarrow> path \<Rightarrow> reader \<Rightarrow> metadata" where
  "build_common_metadata env lo fp rd =
     (let md = [''source'' \<mapsto> MStr fp,
                ''file_name'' \<mapsto> MStr (path_name fp),
                ''file_type'' \<mapsto> MStr (normalize_file_type (file_type rd) fp),
                ''loader'' \<mapsto> MStr (''langchain_hwp_hwpx/'' @ version env),
                ''parser'' \<mapsto> MStr (''hwp-hwpx-parser/'' @ parser_version env)];
          md = (if include_extracted_at lo then md(''extracted_at'' \<mapsto> MStr (utc_now_iso env)) else md)
      in md ++ extra_metadata lo)"

text \<open>
  \<open>_resolve_status_policy\<close> raises the structured error, raises the skip signal, or returns
  the placeholder document.
\<close>

definition resolve_status_policy :: "string \<Rightarrow> string \<Rightarrow> path \<Rightarrow> metadata \<Rightarrow> exn + document option" where
  "resolve_status_policy policy status fp base_metadata =
     (let message = ''Document skipped because it is '' @ status @ '': '' @ fp in
      if policy = ''raise'' then Inl (HwpHwpxLoaderError message None)
      else if policy = ''skip'' then Inl SkipFile
      else Inr (Some \<lparr>page_content = ''['' @ upper status @ ''] '' @ path_name fp @ '' cannot be parsed by policy.'',
                      metadata = base_metadata(''status'' \<mapsto> MStr status, ''element_type'' \<mapsto> MStr ''placeholder'')\<rparr>))"

definition handle_file_status :: "loader \<Rightarrow> reader \<Rightarrow> metadata \<Rightarrow> exn + document option" where
  "handle_file_status lo rd base_metadata =
     (if is_encrypted rd
      then resolve_status_policy (on_encrypted lo) ''encrypted'' (file_path lo) base_metadata
      else if \<not> is_valid rd
      then resolve_status_policy (on_invalid lo) ''invalid'' (file_path lo) base_metadata
      else Inr None)"

definition handle_runtime_error :: "loader \<Rightarrow> path \<Rightarrow> exn \<Rightarrow> event list \<times> exn option" where
  "handle_runtime_error lo fp exc =
     (let message = ''Failed to parse '' @ fp @ '': '' @ class_name exc in
      if on_error lo = ''raise''
      then (if is_loader_error exc then ([], Some exc)
            else ([], Some (HwpHwpxLoaderError message (Some exc))))
      else if on_error lo = ''warn''
      then ([LogWarning (message @ '' ('' @ exn_str exc @ '')'')], None)
      else ([], None))"

subsection \<open>Collecting the features\<close>

definition extract_result :: "loader \<Rightarrow> reader \<Rightarrow> exn + extraction_result" where
  "extract_result lo rd = extract_text_with_notes rd (extract_options lo)"

definition extract_body_text :: "reader \<Rightarrow> extraction_result \<Rightarrow> string" where
  "extract_body_text rd res =
     (let text = strip (string_of (res_text res)) in
      if text \<noteq> [] then text else strip (string_of (reader_text rd)))"

text \<open>
  \<open>_collect_tables\<close> and \<open>_collect_images\<close> call \<open>reader.get_tables()\<close> and
  \<open>reader.get_images()\<close>; an exception of the call is their result.
\<close>

definition collect_tables :: "reader \<Rightarrow> extraction_result \<Rightarrow> exn + table_handle list" where
  "collect_tables rd res =
     (case res_tables res of
        Some ts \<Rightarrow> Inr ts
      | None \<Rightarrow> (case get_tables rd of Some called \<Rightarrow> called | None \<Rightarrow> Inr []))"

definition collect_notes :: "extraction_result \<Rightarrow> note_handle list" where
  "collect_notes res = (case res_notes res of Some ns \<Rightarrow> ns | None \<Rightarrow> [])"

definition collect_memos :: "extraction_result \<Rightarrow> memo_handle list" where
  "collect_memos res = (case res_memos res of Some ms \<Rightarrow> ms | None \<Rightarrow> [])"

definition collect_hyperlinks :: "extraction_result \<Rightarrow> hyperlink list" where
  "collect_hyperlinks res = (case res_hyperlinks res of Some hs \<Rightarrow> hs | None \<Rightarrow> [])"

definition collect_images :: "reader \<Rightarrow> exn + image_handle list" where
  "collect_images rd = (case get_images rd of Some called \<Rightarrow> called | None \<Rightarrow> Inr [])"

fun normalize_hyperlink :: "hyperlink \<Rightarrow> string \<times> string" where
  "normalize_hyperlink (HSeq items) =
     (let text = (if length items > 0 then string_of (items ! 0) else []);
          url = (if length items > 1 then string_of (items ! 1) else [])
      in (strip text, strip url))"
| "normalize_hyperlink (HDict d) =
     (let text = string_of (case d ''text'' of None \<Rightarrow> Some [] | Some v \<Rightarrow> v);
          url = string_of (case d ''url'' of None \<Rightarrow> Some [] | Some v \<Rightarrow> v)
      in (strip text, strip url))"
| "normalize_hyperlink (HObj t u) = (strip (string_of t), strip (string_of u))"

subsection \<open>Rendering\<close>

definition opts_attr :: "extract_opts option \<Rightarrow> (extract_opts \<Rightarrow> 'a attr) \<Rightarrow> 'a attr" where
  "opts_attr opts field = (case opts of None \<Rightarrow> Absent | Some v \<Rightarrow> field v)"

definition stripped :: "exn + string \<Rightarrow> exn + string" where
  "stripped called = (case called of Inl e \<Rightarrow> Inl e | Inr s \<Rightarrow> Inr (strip s))"

definition render_table :: "loader \<Rightarrow> table_handle \<Rightarrow> exn + string" where
  "render_table lo t =
     (let opts = extract_options lo;
          style_obj = (case opts of None \<Rightarrow> None | Some v \<Rightarrow> table_style v);
          style_name = string_of (case style_obj of None \<Rightarrow> None | Some ts \<Rightarrow> ts_name ts);
          style_name = (if style_name = []
                        then (case style_obj of None \<Rightarrow> [] | Some ts \<Rightarrow> ts_str ts)
                        else style_name);
          style_name = upper style_name
      in if sublist ''CSV'' style_name \<and> to_csv t \<noteq> None
         then (let csv_delimiter = strip (getattr_string (opts_attr opts table_delimiter) '','');
                   csv_delimiter = (if csv_delimiter = [] then '','' else csv_delimiter)
               in stripped ((the (to_csv t)) csv_delimiter))
         else if sublist ''INLINE'' style_name \<and> to_inline t \<noteq> None
         then stripped (the (to_inline t))
         else if to_markdown t \<noteq> None
         then stripped (the (to_markdown t))
         else Inr (strip (getattr_string (rows t) (table_str t))))"

text \<open>The list comprehension over the tables ends at the first rendering that raises.\<close>

fun render_each :: "loader \<Rightarrow> table_handle list \<Rightarrow> exn + string list" where
  "render_each lo [] = Inr []"
| "render_each lo (t # ts) =
     (case render_table lo t of
        Inl e \<Rightarrow> Inl e
      | Inr s \<Rightarrow> (case render_each lo ts of Inl e \<Rightarrow> Inl e | Inr ss \<Rightarrow> Inr (s # ss)))"

definition render_tables_for_single :: "loader \<Rightarrow> reader \<Rightarrow> extraction_result \<Rightarrow> exn + string" where
  "render_tables_for_single lo rd res =
     (case collect_tables rd res of
        Inl e \<Rightarrow> Inl e
      | Inr tables \<Rightarrow>
          if tables = [] then Inr []
          else (let delimiter = strip (getattr_string (opts_attr (extract_options lo) paragraph_separator) (NL @ NL));
                    delimiter = (if delimiter = [] then NL @ NL else delimiter)
                in case render_each lo tables of
                     Inl e \<Rightarrow> Inl e
                   | Inr rendered \<Rightarrow> Inr (''## Tables'' @ NL @ join delimiter rendered)))"

definition note_line :: "note_handle \<Rightarrow> exn + string" where
  "note_line n =
     (let ntype = lower (getattr_string (note_type n) ''footnote'') in
      case safe_int (note_number n) of
        Inl e \<Rightarrow> Inl e
      | Inr number \<Rightarrow>
          (let marker = (case number of
                           Some k \<Rightarrow> ''['' @ ntype @ '':'' @ str_int k @ '']''
                         | None \<Rightarrow> ''['' @ ntype @ '']'');
               text = strip (string_of (note_text n))
           in Inr (strip (marker @ '' '' @ text))))"

fun note_lines :: "note_handle list \<Rightarrow> exn + string list" where
  "note_lines [] = Inr []"
| "note_lines (n # ns) =
     (case note_line n of
        Inl e \<Rightarrow> Inl e
      | Inr line \<Rightarrow> (case note_lines ns of Inl e \<Rightarrow> Inl e | Inr lines \<Rightarrow> Inr (line # lines)))"

definition render_notes_for_single :: "extraction_result \<Rightarrow> exn + string" where
  "render_notes_for_single res =
     (let notes = collect_notes res in
      if notes = [] then Inr []
      else (case note_lines notes of
              Inl e \<Rightarrow> Inl e
            | Inr lines \<Rightarrow> Inr (join NL (''## Notes'' # lines))))"

definition memo_line :: "nat \<times> memo_handle \<Rightarrow> string" where
  "memo_line im =
     (let author = strip (string_of (m_author (snd im)));
          text = strip (string_of (m_text (snd im)));
          label = ''[memo:'' @ str_int (int (fst im)) @ '']'';
          label = (if author \<noteq> [] then label @ '' ('' @ author @ '')'' else label)
      in strip (label @ '' '' @ text))"

definition render_memos_for_single :: "extraction_result \<Rightarrow> string" where
  "render_memos_for_single res =
     (let memos = collect_memos res in
      if memos = [] then [] else join NL (''## Memos'' # map memo_line (enumerate 1 memos)))"

definition hyperlink_lines :: "hyperlink \<Rightarrow> string list" where
  "hyperlink_lines h =
     (case normalize_hyperlink h of (text, url) \<Rightarrow>
        if text \<noteq> [] \<and> url \<noteq> [] then [''- '' @ text @ '': '' @ url]
        else if url \<noteq> [] then [''- '' @ url]
        else if text \<noteq> [] then [''- '' @ text]
        else [])"

definition render_hyperlinks_for_single :: "extraction_result \<Rightarrow> string" where
  "render_hyperlinks_for_single res =
     (let links = collect_hyperlinks res in
      if links = [] then [] else join NL (''## Hyperlinks'' # concat (map hyperlink_lines links)))"

subsection \<open>Image materialization\<close>

text \<open>
  The format and the resolved file name of an image, and the output path under the image
  directory: the format is appended as the extension when the joined path has none, which
  \<open>with_suffix\<close> may refuse.
\<close>

definition image_fmt :: "image_handle \<Rightarrow> string" where
  "image_fmt img =
     (let fmt = lower (strip (getattr_string (img_format img) ''bin''))
      in if fmt = [] then ''bin'' else fmt)"

definition resolved_name :: "int \<Rightarrow> image_handle \<Rightarrow> string" where
  "resolved_name image_index img =
     (let filename = strip (string_of (img_filename img));
          generated_name = ''image_'' @ format_03d image_index @ ''.'' @ image_fmt img
      in if filename \<noteq> [] then filename else generated_name)"

definition output_path_for :: "path \<Rightarrow> string \<Rightarrow> string \<Rightarrow> exn + path" where
  "output_path_for dir name fmt =
     (let output_path = path_join dir name
      in if path_suffix output_path = [] then with_suffix output_path (''.'' @ fmt)
         else Inr output_path)"

text \<open>
  \<open>_materialize_image\<close> writes \<open>filename\<close> and \<open>image_format\<close> into the metadata dictionary
  it is given and returns the content string; the model returns the effects together with
  the exception raised by \<open>mkdir\<close>, \<open>with_suffix\<close> or \<open>image.save\<close>, or the content and the
  updated dictionary.
\<close>

definition materialize_image ::
  "env \<Rightarrow> loader \<Rightarrow> path \<Rightarrow> int \<Rightarrow> image_handle \<Rightarrow> metadata \<Rightarrow> event list \<times> (exn + string \<times> metadata)" where
  "materialize_image env lo fp image_index img md =
     (let fmt = image_fmt img;
          name = resolved_name image_index img;
          md = md(''filename'' \<mapsto> MStr name, ''image_format'' \<mapsto> MStr fmt);
          described = name @ '' ('' @ fmt @ '') from '' @ path_name fp
      in case (if image_document_mode lo = ''save_and_reference'' then images_dir lo else None) of
           None \<Rightarrow> ([], Inr (described, md))
         | Some dir \<Rightarrow>
             (case mkdir env dir of
                Some e \<Rightarrow> ([Mkdir dir], Inl e)
              | None \<Rightarrow>
                  (case output_path_for dir name fmt of
                     Inl e \<Rightarrow> ([Mkdir dir], Inl e)
                   | Inr output_path \<Rightarrow>
                       (case img_save img of
                          None \<Rightarrow> ([Mkdir dir], Inr (described, md))
                        | Some save \<Rightarrow>
                            (case save output_path of
                               Some e \<Rightarrow> ([Mkdir dir, Save output_path], Inl e)
                             | None \<Rightarrow>
                                 ([Mkdir dir, Save output_path],
                                  Inr (name @ '' -> '' @ output_path,
                                       md(''saved_path'' \<mapsto> MStr output_path))))))))"

fun materialize_each ::
  "env \<Rightarrow> loader \<Rightarrow> path \<Rightarrow> (nat \<times> image_handle) list \<Rightarrow> event list \<times> (exn + string list)" where
  "materialize_each env lo fp [] = ([], Inr [])"
| "materialize_each env lo fp ((image_index, img) # rest) =
     (case materialize_image env lo fp (int image_index) img Map.empty of
        (es, Inl e) \<Rightarrow> (es, Inl e)
      | (es, Inr (content, md)) \<Rightarrow>
          (case materialize_each env lo fp rest of
             (es', Inl e) \<Rightarrow> (es @ es', Inl e)
           | (es', Inr contents) \<Rightarrow> (es @ es', Inr (content # contents))))"

definition render_images_for_single :: "env \<Rightarrow> loader \<Rightarrow> path \<Rightarrow> reader \<Rightarrow> event list \<times> (exn + string)" where
  "render_images_for_single env lo fp rd =
     (case collect_images rd of
        Inl e \<Rightarrow> ([], Inl e)
      | Inr images \<Rightarrow>
          if images = [] then ([], Inr [])
          else (case materialize_each env lo fp (enumerate 0 images) of
                  (es, Inl e) \<Rightarrow> (es, Inl e)
                | (es, Inr contents) \<Rightarrow> (es, Inr (join NL (''## Images'' # contents)))))"

subsection \<open>Single mode\<close>

definition chunk :: "string \<Rightarrow> string list" where
  "chunk part = (if part \<noteq> [] then [part] else [])"

definition single_document :: "metadata \<Rightarrow> string list \<Rightarrow> document" where
  "single_document base_metadata chunks =
     \<lparr>page_content = strip (join (NL @ NL) (filter (\<lambda>part. part \<noteq> []) chunks)),
      metadata = base_metadata(''element_type'' \<mapsto> MStr ''document'')\<rparr>"

text \<open>
  The sections are rendered in their order; the first one that raises ends the function.
  A section that is excluded adds nothing, as an empty one does.
\<close>

definition build_single_document ::
  "env \<Rightarrow> loader \<Rightarrow> path \<Rightarrow> reader \<Rightarrow> extraction_result \<Rightarrow> metadata \<Rightarrow> event list \<times> (exn + document)" where
  "build_single_document env lo fp rd res base_metadata =
     (let chunks = chunk (extract_body_text rd res) in
      case (if include_tables lo then render_tables_for_single lo rd res else Inr []) of
        Inl e \<Rightarrow> ([], Inl e)
      | Inr tables_section \<Rightarrow>
          (case (if include_notes lo then render_notes_for_single res else Inr []) of
             Inl e \<Rightarrow> ([], Inl e)
           | Inr notes_section \<Rightarrow>
               (let chunks = chunks @ chunk tables_section @ chunk notes_section;
                    chunks = chunks @ (if include_memos lo then chunk (render_memos_for_single res) else []);
                    chunks = chunks @ (if include_hyperlinks lo then chunk (render_hyperlinks_for_single res) else [])
                in case (if include_images lo then render_images_for_single env lo fp rd else ([], Inr [])) of
                     (es, Inl e) \<Rightarrow> (es, Inl e)
                   | (es, Inr images_section) \<Rightarrow>
                       (es, Inr (single_document base_metadata (chunks @ chunk images_section))))))"

subsection \<open>Elements mode\<close>

definition element_metadata :: "metadata \<Rightarrow> string \<Rightarrow> int \<Rightarrow> metadata" where
  "element_metadata base_metadata element_type element_index =
     base_metadata(''element_type'' \<mapsto> MStr element_type, ''element_index'' \<mapsto> MInt element_index)"

definition put_int :: "string \<Rightarrow> int option \<Rightarrow> metadata \<Rightarrow> metadata" where
  "put_int key value md = (case value of Some n \<Rightarrow> md(key \<mapsto> MInt n) | None \<Rightarrow> md)"

definition put_nonempty :: "string \<Rightarrow> string option \<Rightarrow> metadata \<Rightarrow> metadata" where
  "put_nonempty key value md =
     (case value of Some v \<Rightarrow> (if v \<noteq> [] then md(key \<mapsto> MStr v) else md) | None \<Rightarrow> md)"

text \<open>
  The document of a table: the two counts are converted, then the table is rendered; the
  first of the three that raises ends the generator.
\<close>

definition table_document :: "loader \<Rightarrow> metadata \<Rightarrow> int \<Rightarrow> table_handle \<Rightarrow> exn + document" where
  "table_document lo base_metadata index t =
     (case safe_int (row_count t) of
        Inl e \<Rightarrow> Inl e
      | Inr n_rows \<Rightarrow>
          (case safe_int (col_count t) of
             Inl e \<Rightarrow> Inl e
           | Inr n_cols \<Rightarrow>
               (case render_table lo t of
                  Inl e \<Rightarrow> Inl e
                | Inr content \<Rightarrow>
                    Inr \<lparr>page_content = content,
                         metadata = put_int ''col_count'' n_cols
                                      (put_int ''row_count'' n_rows
                                         (element_metadata base_metadata ''table'' index))\<rparr>)))"

definition note_document :: "metadata \<Rightarrow> int \<Rightarrow> note_handle \<Rightarrow> exn + document" where
  "note_document base_metadata index n =
     (let ntype = lower (getattr_string (note_type n) ''footnote'');
          element_type = (if ntype = ''endnote'' then ''endnote'' else ''footnote'');
          md = (element_metadata base_metadata element_type index)(''note_type'' \<mapsto> MStr ntype)
      in case safe_int (note_number n) of
           Inl e \<Rightarrow> Inl e
         | Inr number \<Rightarrow>
             Inr \<lparr>page_content = strip (string_of (note_text n)),
                  metadata = put_int ''note_number'' number md\<rparr>)"

definition memo_document :: "metadata \<Rightarrow> int \<Rightarrow> memo_handle \<Rightarrow> document" where
  "memo_document base_metadata index m =
     \<lparr>page_content = strip (string_of (m_text m)),
      metadata = put_nonempty ''referenced_text'' (m_referenced_text m)
                   (put_nonempty ''author'' (m_author m)
                     (put_nonempty ''memo_id'' (m_memo_id m)
                       (put_nonempty ''id'' (m_id m) (element_metadata base_metadata ''memo'' index))))\<rparr>"

text \<open>
  Each loop of \<open>_build_element_documents\<close> returns the documents it yields and then the
  value of \<open>index\<close> after it, or the exception that ended it.
\<close>

fun table_documents ::
  "loader \<Rightarrow> metadata \<Rightarrow> int \<Rightarrow> table_handle list \<Rightarrow> document list \<times> (exn + int)" where
  "table_documents lo md index [] = ([], Inr index)"
| "table_documents lo md index (t # ts) =
     (case table_document lo md index t of
        Inl e \<Rightarrow> ([], Inl e)
      | Inr d \<Rightarrow>
          (case table_documents lo md (index + 1) ts of
             (ds, after) \<Rightarrow> (d # ds, after)))"

fun note_documents :: "metadata \<Rightarrow> int \<Rightarrow> note_handle list \<Rightarrow> document list \<times> (exn + int)" where
  "note_documents md index [] = ([], Inr index)"
| "note_documents md index (n # ns) =
     (case note_document md index n of
        Inl e \<Rightarrow> ([], Inl e)
      | Inr d \<Rightarrow>
          (case note_documents md (index + 1) ns of
             (ds, after) \<Rightarrow> (d # ds, after)))"

fun memo_documents :: "metadata \<Rightarrow> int \<Rightarrow> memo_handle list \<Rightarrow> document list \<times> int" where
  "memo_documents md index [] = ([], index)"
| "memo_documents md index (m # ms) =
     (case memo_documents md (index + 1) ms of
        (ds, index') \<Rightarrow> (memo_document md index m # ds, index'))"

definition hyperlink_document :: "metadata \<Rightarrow> int \<Rightarrow> string \<Rightarrow> string \<Rightarrow> document" where
  "hyperlink_document base_metadata index text url =
     (let md = element_metadata base_metadata ''hyperlink'' index;
          md = (if url \<noteq> [] then md(''url'' \<mapsto> MStr url) else md);
          md = (if text \<noteq> [] then md(''text'' \<mapsto> MStr text) else md)
      in \<lparr>page_content = (if text \<noteq> [] then text else url), metadata = md\<rparr>)"

fun hyperlink_documents :: "metadata \<Rightarrow> int \<Rightarrow> hyperlink list \<Rightarrow> document list \<times> int" where
  "hyperlink_documents md index [] = ([], index)"
| "hyperlink_documents md index (h # hs) =
     (case normalize_hyperlink h of (text, url) \<Rightarrow>
        if text = [] \<and> url = [] then hyperlink_documents md index hs
        else (case hyperlink_documents md (index + 1) hs of
                (ds, index') \<Rightarrow> (hyperlink_document md index text url # ds, index')))"

fun image_documents ::
  "env \<Rightarrow> loader \<Rightarrow> path \<Rightarrow> metadata \<Rightarrow> int \<Rightarrow> (nat \<times> image_handle) list \<Rightarrow> outcome" where
  "image_documents env lo fp md index [] = \<lparr>docs = [], events = [], raised = None\<rparr>"
| "image_documents env lo fp md index ((image_index, img) # rest) =
     (case materialize_image env lo fp (int image_index) img (element_metadata md ''image'' index) of
        (es, Inl e) \<Rightarrow> \<lparr>docs = [], events = es, raised = Some e\<rparr>
      | (es, Inr (image_content, image_metadata)) \<Rightarrow>
          (let r = image_documents env lo fp md (index + 1) rest in
           \<lparr>docs = \<lparr>page_content = image_content, metadata = image_metadata\<rparr> # docs r,
            events = es @ events r,
            raised = raised r\<rparr>))"

text \<open>
  The generator of elements mode: what was yielded before an exception stays yielded.
\<close>

definition build_element_documents ::
  "env \<Rightarrow> loader \<Rightarrow> path \<Rightarrow> reader \<Rightarrow> extraction_result \<Rightarrow> metadata \<Rightarrow> outcome" where
  "build_element_documents env lo fp rd res base_metadata =
     (let index = 0;
          body_text = extract_body_text rd res;
          (body_docs, index) =
             (if body_text \<noteq> []
              then ([\<lparr>page_content = body_text, metadata = element_metadata base_metadata ''body'' index\<rparr>],
                    index + 1)
              else ([], index))
      in case (if include_tables lo
               then (case collect_tables rd res of
                       Inl e \<Rightarrow> ([], Inl e)
                     | Inr tables \<Rightarrow> table_documents lo base_metadata index tables)
               else ([], Inr index)) of
           (table_docs, Inl e) \<Rightarrow>
             \<lparr>docs = body_docs @ table_docs, events = [], raised = Some e\<rparr>
         | (table_docs, Inr index) \<Rightarrow>
             (case (if include_notes lo then note_documents base_metadata index (collect_notes res)
                    else ([], Inr index)) of
                (note_docs, Inl e) \<Rightarrow>
                  \<lparr>docs = body_docs @ table_docs @ note_docs, events = [], raised = Some e\<rparr>
              | (note_docs, Inr index) \<Rightarrow>
                  (let (memo_docs, index) =
                         (if include_memos lo then memo_documents base_metadata index (collect_memos res)
                          else ([], index));
                       (hyperlink_docs, index) =
                         (if include_hyperlinks lo
                          then hyperlink_documents base_metadata index (collect_hyperlinks res)
                          else ([], index));
                       images =
                         (if include_images lo
                          then (case collect_images rd of
                                  Inl e \<Rightarrow> \<lparr>docs = [], events = [], raised = Some e\<rparr>
                                | Inr imgs \<Rightarrow>
                                    image_documents env lo fp base_metadata index (enumerate 0 imgs))
                          else \<lparr>docs = [], events = [], raised = None\<rparr>)
                   in \<lparr>docs = body_docs @ table_docs @ note_docs @ memo_docs @ hyperlink_docs @ docs images,
                       events = events images,
                       raised = raised images\<rparr>)))"

subsection \<open>The generator\<close>

definition create_reader :: "env \<Rightarrow> path \<Rightarrow> exn + reader" where
  "create_reader env fp = parser_Reader env fp"

text \<open>The body of the \<open>try\<close> statement of \<open>lazy_load\<close>.\<close>

definition load_file :: "env \<Rightarrow> loader \<Rightarrow> path \<Rightarrow> outcome" where
  "load_file env lo fp =
     (case create_reader env fp of
        Inl e \<Rightarrow> \<lparr>docs = [], events = [], raised = Some e\<rparr>
      | Inr rd \<Rightarrow>
          (let base_metadata = build_common_metadata env lo fp rd in
           case handle_file_status lo rd base_metadata of
             Inl e \<Rightarrow> \<lparr>docs = [], events = [], raised = Some e\<rparr>
           | Inr (Some placeholder) \<Rightarrow> \<lparr>docs = [placeholder], events = [], raised = None\<rparr>
           | Inr None \<Rightarrow>
               (case extract_result lo rd of
                  Inl e \<Rightarrow> \<lparr>docs = [], events = [Extract], raised = Some e\<rparr>
                | Inr res \<Rightarrow>
                    if mode lo = ''single''
                    then (case build_single_document env lo fp rd res base_metadata of
                            (es, Inl e) \<Rightarrow> \<lparr>docs = [], events = Extract # es, raised = Some e\<rparr>
                          | (es, Inr d) \<Rightarrow> \<lparr>docs = [d], events = Extract # es, raised = None\<rparr>)
                    else (let r = build_element_documents env lo fp rd res base_metadata in
                          r\<lparr>events := Extract # events r\<rparr>))))"

text \<open>The \<open>except\<close> clauses of \<open>lazy_load\<close>, in their order.\<close>

definition contain :: "loader \<Rightarrow> path \<Rightarrow> outcome \<Rightarrow> outcome" where
  "contain lo fp r =
     (case raised r of
        None \<Rightarrow> r
      | Some SkipFile \<Rightarrow> r\<lparr>raised := None\<rparr>
      | Some (HwpHwpxLoaderError message cause) \<Rightarrow> r
      | Some (PyException cls message) \<Rightarrow>
          (case handle_runtime_error lo fp (PyException cls message) of
             (es, ex) \<Rightarrow> r\<lparr>events := events r @ es, raised := ex\<rparr>))"

definition lazy_load :: "env \<Rightarrow> loader \<Rightarrow> outcome" where
  "lazy_load env lo =
     (let fp = file_path lo in
      if lower (path_suffix fp) \<notin> set SUPPORTED_EXTENSIONS
      then \<lparr>docs = [], events = [],
            raised = Some (PyException ''ValueError''
                       (''Unsupported extension for '' @ fp @ ''. Use .hwp or .hwpx''))\<rparr>
      else if \<not> exists env fp
      then \<lparr>docs = [], events = [],
            raised = Some (PyException ''FileNotFoundError'' (''File not found: '' @ fp))\<rparr>
      else contain lo fp (load_file env lo fp))"

section \<open>Directory loader\<close>

record directory_loader =
  dir_path :: path
  glob_pattern :: string
  recursive :: bool
  extensions :: "string list"
  loader_kwargs :: loader_kwargs
  dir_on_error :: string

definition normalize_extension :: "string \<Rightarrow> exn + string" where
  "normalize_extension extension =
     (let extension = lower (strip extension) in
      if extension = [] then Inl (PyException ''ValueError'' ''extensions must not contain empty values'')
      else if \<not> prefix ''.'' extension then Inr (''.'' @ extension)
      else Inr extension)"

fun normalize_extensions :: "string list \<Rightarrow> exn + string list" where
  "normalize_extensions [] = Inr []"
| "normalize_extensions (ext # rest) =
     (case normalize_extension ext of
        Inl e \<Rightarrow> Inl e
      | Inr v \<Rightarrow> (case normalize_extensions rest of Inl e \<Rightarrow> Inl e | Inr vs \<Rightarrow> Inr (v # vs)))"

text \<open>
  The keyword arguments are passed on to every \<open>HwpHwpxLoader\<close>; \<open>on_error\<close> among them
  (\<open>raise\<close> when the caller gave none) is also the directory's own policy.
\<close>

definition HwpHwpxDirectoryLoader_init ::
  "string \<Rightarrow> string \<Rightarrow> bool \<Rightarrow> string list \<Rightarrow> loader_kwargs \<Rightarrow> exn + directory_loader" where
  "HwpHwpxDirectoryLoader_init dp pattern rec exts kw =
     (case normalize_extensions exts of
        Inl e \<Rightarrow> Inl e
      | Inr normalized \<Rightarrow>
          (case validate_literal (on_error kw) ''on_error'' VALID_ERROR_POLICIES of
             Some e \<Rightarrow> Inl e
           | None \<Rightarrow>
               Inr \<lparr>dir_path = Path dp, glob_pattern = pattern, recursive = rec, extensions = normalized,
                    loader_kwargs = kw, dir_on_error = on_error kw\<rparr>))"

text \<open>
  \<open>str.replace(old, new)\<close> for a non-empty \<open>old\<close>: \<open>skip\<close> counts the characters of a
  match still to be dropped.
\<close>

fun replace_from :: "string \<Rightarrow> string \<Rightarrow> nat \<Rightarrow> string \<Rightarrow> string" where
  "replace_from old new skip [] = []"
| "replace_from old new (Suc skip) (c # cs) = replace_from old new skip cs"
| "replace_from old new 0 (c # cs) =
     (if prefix old (c # cs) then new @ replace_from old new (length old - 1) cs
      else c # replace_from old new 0 cs)"

definition replace :: "string \<Rightarrow> string \<Rightarrow> string \<Rightarrow> string" where
  "replace s old new = replace_from old new 0 s"

text \<open>
  \<open>Path.glob\<close> refuses the empty pattern and a pattern with a root when it is enumerated;
  any other pattern is matched against the file system, which gives the paths in some
  order or an error of its own.
\<close>

definition path_glob :: "env \<Rightarrow> path \<Rightarrow> string \<Rightarrow> exn + path list" where
  "path_glob env root pattern =
     (if pattern = []
      then Inl (PyException ''ValueError'' (''Unacceptable pattern: '' @ py_repr pattern))
      else if prefix ''/'' pattern
      then Inl (PyException ''NotImplementedError'' ''Non-relative patterns are unsupported'')
      else glob env root pattern)"

definition glob_candidates :: "env \<Rightarrow> directory_loader \<Rightarrow> exn + path list" where
  "glob_candidates env dl =
     (let pattern = glob_pattern dl in
      if recursive dl then path_glob env (dir_path dl) pattern
      else (let local_pattern = replace (replace pattern ''**/'' []) ''**'' ''*'' in
            path_glob env (dir_path dl) local_pattern))"

definition collect_files :: "env \<Rightarrow> directory_loader \<Rightarrow> exn + path list" where
  "collect_files env dl =
     (case glob_candidates env dl of
        Inl e \<Rightarrow> Inl e
      | Inr candidates \<Rightarrow>
          (let files = filter (\<lambda>p. is_file env p \<and> lower (path_suffix p) \<in> set (extensions dl))
                         candidates
           in Inr (sort_key (\<lambda>item. item) files)))"

text \<open>
  One file of the directory: the loader is constructed from the shared keyword arguments
  and run, both inside the \<open>try\<close> statement.
\<close>

definition load_one :: "env \<Rightarrow> loader_kwargs \<Rightarrow> path \<Rightarrow> outcome" where
  "load_one env kw fp =
     (case HwpHwpxLoader_init fp kw of
        Inl e \<Rightarrow> \<lparr>docs = [], events = [], raised = Some e\<rparr>
      | Inr lo \<Rightarrow> lazy_load env lo)"

fun load_files :: "env \<Rightarrow> directory_loader \<Rightarrow> path list \<Rightarrow> outcome" where
  "load_files env dl [] = \<lparr>docs = [], events = [], raised = None\<rparr>"
| "load_files env dl (fp # rest) =
     (let r = load_one env (loader_kwargs dl) fp
      in case raised r of
           None \<Rightarrow>
             (let r' = load_files env dl rest in
              \<lparr>docs = docs r @ docs r', events = events r @ events r', raised = raised r'\<rparr>)
         | Some exc \<Rightarrow>
             (let message = ''Failed to load file '' @ fp @ '': '' @ class_name exc in
              if dir_on_error dl = ''raise''
              then \<lparr>docs = docs r, events = events r,
                    raised = Some (HwpHwpxLoaderError message (Some exc))\<rparr>
              else (let warned = (if dir_on_error dl = ''warn''
                                  then [LogWarning (message @ '' ('' @ exn_str exc @ '')'')] else []);
                        r' = load_files env dl rest
                    in \<lparr>docs = docs r @ docs r', events = events r @ warned @ events r',
                        raised = raised r'\<rparr>)))"

text \<open>
  The file list is built before the first file is loaded, outside the \<open>try\<close> statement: an
  exception of \<open>Path.glob\<close> leaves \<open>lazy_load\<close> as it is.
\<close>

definition directory_lazy_load :: "env \<Rightarrow> directory_loader \<Rightarrow> outcome" where
  "directory_lazy_load env dl =
     (if \<not> exists env (dir_path dl)
      then \<lparr>docs = [], events = [],
            raised = Some (PyException ''FileNotFoundError'' (''Directory not found: '' @ dir_path dl))\<rparr>
      else if \<not> is_dir env (dir_path dl)
      then \<lparr>docs = [], events = [],
            raised = Some (PyException ''NotADirectoryError'' (''Expected directory path: '' @ dir_path dl))\<rparr>
      else (case collect_files env dl of
              Inl e \<Rightarrow> \<lparr>docs = [], events = [], raised = Some e\<rparr>
            | Inr files \<Rightarrow> load_files env dl files))"

section \<open>Fixtures\<close>

text \<open>
  The collaborator of the repository's tests (\<open>FakeReader\<close>, \<open>FakeTable\<close>, \<open>FakeImage\<close> of
  \<open>tests/test_loader.py\<close>, with ASCII texts), the constructor's default arguments, and the
  directories of \<open>tests/test_directory_loader.py\<close>.
\<close>

definition fake_table :: table_handle where
  "fake_table =
     \<lparr>row_count = IntValue 2, col_count = IntValue 2,
      to_csv = Some (\<lambda>delimiter. Inr (''A'' @ delimiter @ ''B'' @ NL @ ''1'' @ delimiter @ ''2'')),
      to_inline = Some (Inr ''A:1, B:2''),
      to_markdown = Some (Inr (''|A|B|'' @ NL @ ''|---|---|'' @ NL @ ''|1|2|'')),
      rows = Absent, table_str = ''<FakeTable>''\<rparr>"

definition fake_image :: image_handle where
  "fake_image = \<lparr>img_filename = Some ''diagram.png'', img_format = Has ''png'',
                  img_save = Some (\<lambda>p. None)\<rparr>"

definition fake_result :: extraction_result where
  "fake_result =
     \<lparr>res_text = Some ''body [footnote:1]'',
      res_tables = None,
      res_notes = Some [\<lparr>note_type = Has ''footnote'', note_number = IntValue 1, note_text = Some ''first note''\<rparr>,
                        \<lparr>note_type = Has ''endnote'', note_number = IntValue 2, note_text = Some ''second note''\<rparr>],
      res_memos = Some [\<lparr>m_id = Some ''m1'', m_memo_id = None, m_author = Some ''tester'',
                         m_referenced_text = None, m_text = Some ''a memo''\<rparr>],
      res_hyperlinks = Some [HSeq [Some ''site'', Some ''https://example.com'']]\<rparr>"

definition fake_reader :: reader where
  "fake_reader =
     \<lparr>file_type = Some \<lparr>ft_str = ''FakeFileType.HWP5'', ft_name = Some ''HWP5'', ft_value = Some ''1''\<rparr>,
      is_encrypted = False, is_valid = True, reader_text = Some ''body text'',
      extract_text_with_notes = (\<lambda>opts. Inr fake_result),
      get_tables = Some (Inr [fake_table]),
      get_images = Some (Inr [fake_image])\<rparr>"

definition encrypted_reader :: reader where
  "encrypted_reader = fake_reader\<lparr>is_encrypted := True, is_valid := False\<rparr>"

definition failing_reader :: reader where
  "failing_reader =
     fake_reader\<lparr>extract_text_with_notes := (\<lambda>opts. Inl (PyException ''RuntimeError'' ''boom''))\<rparr>"




definition fake_env :: "reader \<Rightarrow> env" where
  "fake_env rd =
     \<lparr>exists = (\<lambda>p. True),
      is_dir = (\<lambda>p. p = ''docs''),
      is_file = (\<lambda>p. p \<noteq> ''docs/sub''),
      glob = (\<lambda>d pattern. Inr [''docs/b.hwp'', ''docs/ignored.txt'', ''docs/sub'', ''docs/sub/c.HWP'', ''docs/a.hwpx'']),
      mkdir = (\<lambda>p. None),
      parser_Reader = (\<lambda>p. Inr rd),
      parser_dist_version = None,
      version = ''0.1.0'',
      utc_now_iso = ''2024-01-01T00:00:00+00:00''\<rparr>"

definition default_kwargs :: loader_kwargs where
  "default_kwargs =
     \<lparr>mode = ''single'', extract_options = None,
      include_tables = True, include_notes = True, include_memos = True,
      include_hyperlinks = True, include_images = False,
      images_dir = None, image_document_mode = ''metadata_only'',
      on_encrypted = ''raise'', on_invalid = ''raise'', on_error = ''raise'',
      extra_metadata = Map.empty, include_extracted_at = True\<rparr>"

definition sample_loader :: "loader_kwargs \<Rightarrow> loader" where
  "sample_loader kw = loader_kwargs.extend kw (loader.fields ''/tmp/sample.hwp'')"

definition docs_directory :: "loader_kwargs \<Rightarrow> directory_loader" where
  "docs_directory kw =
     \<lparr>dir_path = ''docs'', glob_pattern = ''**/*'', recursive = True,
      extensions = [''.hwp'', ''.hwpx''], loader_kwargs = kw, dir_on_error = on_error kw\<rparr>"

definition shuffled_env :: "reader \<Rightarrow> env" where
  "shuffled_env rd =
     (fake_env rd)\<lparr>glob := (\<lambda>d pattern. Inr [''docs/sub/c.HWP'', ''docs/a.hwpx'', ''docs/sub'',
                                               ''docs/ignored.txt'', ''docs/b.hwp''])\<rparr>"

text \<open>
  The directory of \<open>test_directory_loader_non_recursive\<close>: a file \<open>top.hwp\<close> and a
  subdirectory \<open>nested\<close> with the file \<open>child.hwpx\<close>. The pattern \<open>*\<close> matches the two
  entries of the root, \<open>**/*\<close> matches all three.
\<close>

definition nested_env :: "reader \<Rightarrow> env" where
  "nested_env rd =
     (fake_env rd)\<lparr>is_dir := (\<lambda>p. p = ''docs'' \<or> p = ''docs/nested''),
                    is_file := (\<lambda>p. p = ''docs/top.hwp'' \<or> p = ''docs/nested/child.hwpx''),
                    glob := (\<lambda>d pattern.
                      if pattern = ''*'' then Inr [''docs/top.hwp'', ''docs/nested'']
                      else Inr [''docs/top.hwp'', ''docs/nested'', ''docs/nested/child.hwpx''])\<rparr>"

definition flat_directory :: "loader_kwargs \<Rightarrow> directory_loader" where
  "flat_directory kw = (docs_directory kw)\<lparr>recursive := False\<rparr>"

definition blank_link_result :: extraction_result where
  "blank_link_result =
     fake_result\<lparr>res_hyperlinks :=
       Some ([] @ HObj None (Some '' '') # [HSeq [Some ''site'', Some ''https://example.com'']])\<rparr>"

text \<open>
  An image without a file name extension and without a save capability, whose format holds
  a path separator, and the keyword arguments that save images under \<open>out\<close>.
\<close>

definition slash_image :: image_handle where
  "slash_image = \<lparr>img_filename = Some ''diagram'', img_format = Has ''p/g'', img_save = None\<rparr>"

definition saving_kwargs :: loader_kwargs where
  "saving_kwargs =
     default_kwargs\<lparr>include_images := True, image_document_mode := ''save_and_reference'',
                    images_dir := Some ''out''\<rparr>"

section \<open>Facts about the fixtures and the string functions\<close>

lemma upper_encrypted: "upper ''encrypted'' = ''ENCRYPTED''"
  by code_simp

lemma sample_loader_simps:
  "file_path (sample_loader kw) = ''/tmp/sample.hwp''"
  "mode (sample_loader kw) = mode kw"
  "extract_options (sample_loader kw) = extract_options kw"
  "include_tables (sample_loader kw) = include_tables kw"
  "include_notes (sample_loader kw) = include_notes kw"
  "include_memos (sample_loader kw) = include_memos kw"
  "include_hyperlinks (sample_loader kw) = include_hyperlinks kw"
  "include_images (sample_loader kw) = include_images kw"
  "images_dir (sample_loader kw) = images_dir kw"
  "image_document_mode (sample_loader kw) = image_document_mode kw"
  "on_encrypted (sample_loader kw) = on_encrypted kw"
  "on_invalid (sample_loader kw) = on_invalid kw"
  "on_error (sample_loader kw) = on_error kw"
  "extra_metadata (sample_loader kw) = extra_metadata kw"
  "include_extracted_at (sample_loader kw) = include_extracted_at kw"
  by (simp_all add: sample_loader_def loader_kwargs.defs loader.defs)

lemma sample_path:
  "lower (path_suffix ''/tmp/sample.hwp'') \<in> set SUPPORTED_EXTENSIONS"
  "path_name ''/tmp/sample.hwp'' = ''sample.hwp''"
  by code_simp+

lemma suffix_dot_hwpx_sublist: "suffix ''.hwpx'' s \<Longrightarrow> sublist ''hwpx'' s"
proof -
  assume "suffix ''.hwpx'' s"
  then obtain p where "s = p @ ''.hwpx''" by (auto simp: suffix_def)
  then have "s = (p @ ''.'') @ ''hwpx'' @ []" by simp
  then show ?thesis unfolding sublist_def by blast
qed

section \<open>The status gate\<close>

lemma handle_file_status_encrypted:
  "is_encrypted rd \<Longrightarrow>
   handle_file_status lo rd md = resolve_status_policy (on_encrypted lo) ''encrypted'' (file_path lo) md"
  by (simp add: handle_file_status_def)

text \<open>
  Claim C4. With \<open>on_encrypted = "placeholder"\<close> and a reader that reports the document
  encrypted, \<open>lazy_load\<close> yields exactly one document and does nothing else for the file (no
  extraction call, no other effect, no exception); the document's content is the upper-cased
  tag \<open>[ENCRYPTED]\<close> followed by the file name, and its metadata has \<open>status\<close> equal to
  \<open>encrypted\<close> and \<open>element_type\<close> equal to \<open>placeholder\<close>.
\<close>

theorem placeholder_for_encrypted:
  assumes "lower (path_suffix (file_path lo)) \<in> set SUPPORTED_EXTENSIONS"
      and "exists env (file_path lo)"
      and "create_reader env (file_path lo) = Inr rd"
      and "is_encrypted rd"
      and "on_encrypted lo = ''placeholder''"
  shows "\<exists>d. lazy_load env lo = \<lparr>docs = [d], events = [], raised = None\<rparr>
           \<and> page_content d = ''[ENCRYPTED] '' @ path_name (file_path lo) @ '' cannot be parsed by policy.''
           \<and> metadata d ''status'' = Some (MStr ''encrypted'')
           \<and> metadata d ''element_type'' = Some (MStr ''placeholder'')"
  using assms
  by (simp add: lazy_load_def load_file_def contain_def handle_file_status_encrypted
        resolve_status_policy_def upper_encrypted Let_def)

theorem placeholder_for_encrypted_witness:
  "\<exists>d. lazy_load (fake_env encrypted_reader) (sample_loader (default_kwargs\<lparr>on_encrypted := ''placeholder''\<rparr>))
          = \<lparr>docs = [d], events = [], raised = None\<rparr>
       \<and> page_content d = ''[ENCRYPTED] sample.hwp cannot be parsed by policy.''
       \<and> metadata d ''status'' = Some (MStr ''encrypted'')
       \<and> metadata d ''element_type'' = Some (MStr ''placeholder'')"
  using placeholder_for_encrypted [of "sample_loader (default_kwargs\<lparr>on_encrypted := ''placeholder''\<rparr>)"
          "fake_env encrypted_reader" encrypted_reader]
  by (simp add: sample_loader_simps sample_path fake_env_def create_reader_def
        encrypted_reader_def default_kwargs_def)

text \<open>
  Claim C5. For a reader that reports the document both encrypted and invalid, the status
  gate applies the encrypted-status policy, and the invalid-status policy is never consulted:
  neither the gate nor the whole run changes when \<open>on_invalid\<close> is replaced by any other
  value.
\<close>

theorem encrypted_before_invalid:
  assumes "is_encrypted rd" and "\<not> is_valid rd"
  shows "handle_file_status lo rd md
           = resolve_status_policy (on_encrypted lo) ''encrypted'' (file_path lo) md
       \<and> handle_file_status (lo\<lparr>on_invalid := p\<rparr>) rd md = handle_file_status lo rd md
       \<and> (create_reader env (file_path lo) = Inr rd \<longrightarrow>
            lazy_load env (lo\<lparr>on_invalid := p\<rparr>) = lazy_load env lo)"
proof -
  have status: "handle_file_status (lo\<lparr>on_invalid := p\<rparr>) rd md' = handle_file_status lo rd md'" for md'
    using assms by (simp add: handle_file_status_def)
  have meta: "build_common_metadata env (lo\<lparr>on_invalid := p\<rparr>) fp rd = build_common_metadata env lo fp rd" for fp
    by (simp add: build_common_metadata_def)
  have gate: "handle_file_status lo rd md' \<noteq> Inr None" for md'
    using assms by (simp add: handle_file_status_def resolve_status_policy_def)
  have body: "load_file env (lo\<lparr>on_invalid := p\<rparr>) fp = load_file env lo fp"
    if "create_reader env fp = Inr rd" for fp
    using that gate by (simp add: load_file_def status meta Let_def split: sum.splits option.splits)
  have policy: "handle_runtime_error (lo\<lparr>on_invalid := p\<rparr>) fp e = handle_runtime_error lo fp e" for fp e
    by (simp add: handle_runtime_error_def Let_def)
  have handler: "contain (lo\<lparr>on_invalid := p\<rparr>) fp r = contain lo fp r" for fp r
    by (simp add: contain_def policy cong: option.case_cong exn.case_cong)
  show ?thesis
    using assms(1) by (simp add: handle_file_status_encrypted status lazy_load_def body handler Let_def)
qed

theorem encrypted_before_invalid_witness:
  "handle_file_status (sample_loader (default_kwargs\<lparr>on_encrypted := ''skip''\<rparr>)) encrypted_reader Map.empty
     = Inl SkipFile
   \<and> handle_file_status (sample_loader (default_kwargs\<lparr>on_encrypted := ''skip''\<rparr>)\<lparr>on_invalid := ''placeholder''\<rparr>)
        encrypted_reader Map.empty = Inl SkipFile
   \<and> lazy_load (fake_env encrypted_reader)
        (sample_loader (default_kwargs\<lparr>on_encrypted := ''skip''\<rparr>)\<lparr>on_invalid := ''placeholder''\<rparr>)
      = lazy_load (fake_env encrypted_reader) (sample_loader (default_kwargs\<lparr>on_encrypted := ''skip''\<rparr>))"
  using encrypted_before_invalid [of encrypted_reader
          "sample_loader (default_kwargs\<lparr>on_encrypted := ''skip''\<rparr>)" Map.empty "''placeholder''"
          "fake_env encrypted_reader"]
  by (simp add: sample_loader_simps fake_env_def create_reader_def encrypted_reader_def
        default_kwargs_def resolve_status_policy_def)

section \<open>Runtime errors\<close>

text \<open>
  Claim C2. When the reader's structured-extraction call raises an ordinary exception (the
  file has a supported extension and exists, the reader is created, and the document is
  neither encrypted nor invalid, so that the call is made): with \<open>on_error = "raise"\<close> the
  run yields nothing and raises a structured loader error whose message holds the file path
  and the class name of the original exception, its cause; with \<open>on_error = "warn"\<close> it
  yields nothing, raises nothing and logs exactly one warning, which contains
  \<open>Failed to parse\<close>; with \<open>on_error = "skip"\<close> it yields nothing, raises nothing and logs
  nothing.
\<close>

theorem extraction_failure_policies:
  assumes "lower (path_suffix (file_path lo)) \<in> set SUPPORTED_EXTENSIONS"
      and "exists env (file_path lo)"
      and "create_reader env (file_path lo) = Inr rd"
      and "\<not> is_encrypted rd" and "is_valid rd"
      and "extract_text_with_notes rd (extract_options lo) = Inl (PyException cls msg)"
  shows "(on_error lo = ''raise'' \<longrightarrow>
            lazy_load env lo =
              \<lparr>docs = [], events = [Extract],
               raised = Some (HwpHwpxLoaderError (''Failed to parse '' @ file_path lo @ '': '' @ cls)
                               (Some (PyException cls msg)))\<rparr>)
       \<and> (on_error lo = ''warn'' \<longrightarrow>
            (\<exists>w. lazy_load env lo = \<lparr>docs = [], events = [Extract, LogWarning w], raised = None\<rparr>
                 \<and> sublist ''Failed to parse'' w))
       \<and> (on_error lo = ''skip'' \<longrightarrow>
            lazy_load env lo = \<lparr>docs = [], events = [Extract], raised = None\<rparr>)"
  using assms
  by (simp add: lazy_load_def load_file_def contain_def handle_file_status_def extract_result_def
        handle_runtime_error_def Let_def)

theorem extraction_failure_policies_witness:
  "lazy_load (fake_env failing_reader) (sample_loader default_kwargs)
     = \<lparr>docs = [], events = [Extract],
        raised = Some (HwpHwpxLoaderError ''Failed to parse /tmp/sample.hwp: RuntimeError''
                        (Some (PyException ''RuntimeError'' ''boom'')))\<rparr>
   \<and> (\<exists>w. lazy_load (fake_env failing_reader) (sample_loader (default_kwargs\<lparr>on_error := ''warn''\<rparr>))
            = \<lparr>docs = [], events = [Extract, LogWarning w], raised = None\<rparr>
          \<and> sublist ''Failed to parse'' w)
   \<and> lazy_load (fake_env failing_reader) (sample_loader (default_kwargs\<lparr>on_error := ''skip''\<rparr>))
     = \<lparr>docs = [], events = [Extract], raised = None\<rparr>"
  using extraction_failure_policies [of "sample_loader default_kwargs" "fake_env failing_reader"
          failing_reader "''RuntimeError''" "''boom''"]
        extraction_failure_policies [of "sample_loader (default_kwargs\<lparr>on_error := ''warn''\<rparr>)"
          "fake_env failing_reader" failing_reader "''RuntimeError''" "''boom''"]
        extraction_failure_policies [of "sample_loader (default_kwargs\<lparr>on_error := ''skip''\<rparr>)"
          "fake_env failing_reader" failing_reader "''RuntimeError''" "''boom''"]
  by (simp add: sample_loader_simps sample_path fake_env_def create_reader_def failing_reader_def
        fake_reader_def default_kwargs_def)

section \<open>The file type token\<close>

lemma scan_candidates_skip:
  assumes "\<forall>t \<in> set before. \<not> sublist ''hwpx'' (lower t) \<and> \<not> sublist ''hwp5'' (lower t)
             \<and> lower t \<noteq> ''hwp'' \<and> \<not> suffix ''.hwp'' (lower t)"
  shows "scan_candidates (before @ rest) = scan_candidates rest"
  using assms
proof (induction before)
  case Nil
  then show ?case by simp
next
  case (Cons t ts)
  then show ?case by (auto simp: Let_def dest: suffix_dot_hwpx_sublist)
qed

text \<open>
  Claim C8, as amended. The candidate strings are tried in their order (the type object's
  string form, its \<open>name\<close>, its \<open>value\<close>, then the file extension without its dot), and the
  first one that is recognised decides: lower-cased, a candidate that contains \<open>hwpx\<close> gives
  \<open>hwpx\<close>; otherwise one that contains \<open>hwp5\<close>, equals \<open>hwp\<close> or ends with \<open>.hwp\<close> gives
  \<open>hwp\<close>. Containing \<open>hwp\<close> alone is not recognised. When no candidate is recognised the
  token is the lower-cased extension.
\<close>

theorem normalize_file_type_first_recognised:
  assumes "file_type_candidates value fp = before @ token # after"
      and "\<forall>t \<in> set before. \<not> sublist ''hwpx'' (lower t) \<and> \<not> sublist ''hwp5'' (lower t)
             \<and> lower t \<noteq> ''hwp'' \<and> \<not> suffix ''.hwp'' (lower t)"
  shows "(sublist ''hwpx'' (lower token) \<longrightarrow> normalize_file_type value fp = ''hwpx'')
       \<and> (\<not> sublist ''hwpx'' (lower token)
            \<and> (sublist ''hwp5'' (lower token) \<or> lower token = ''hwp'' \<or> suffix ''.hwp'' (lower token))
          \<longrightarrow> normalize_file_type value fp = ''hwp'')
       \<and> (\<not> sublist ''hwpx'' (lower token) \<and> \<not> sublist ''hwp5'' (lower token)
            \<and> lower token \<noteq> ''hwp'' \<and> \<not> suffix ''.hwp'' (lower token) \<and> after = []
          \<longrightarrow> normalize_file_type value fp = lower (lstrip_dot (path_suffix fp)))"
proof -
  have "scan_candidates (file_type_candidates value fp) = scan_candidates (token # after)"
    using assms scan_candidates_skip by simp
  then show ?thesis
    by (auto simp: normalize_file_type_def Let_def dest: suffix_dot_hwpx_sublist)
qed

theorem normalize_file_type_first_recognised_witness:
  "normalize_file_type (Some \<lparr>ft_str = ''Kind.DOC'', ft_name = Some ''HWPX'', ft_value = Some ''1''\<rparr>)
     ''sample.hwp'' = ''hwpx''"
proof -
  have c: "file_type_candidates (Some \<lparr>ft_str = ''Kind.DOC'', ft_name = Some ''HWPX'', ft_value = Some ''1''\<rparr>)
             ''sample.hwp''
        = [''Kind.DOC''] @ ''HWPX'' # [''1'', ''hwp'']"
    by code_simp
  have b: "\<forall>t \<in> set [''Kind.DOC'']. \<not> sublist ''hwpx'' (lower t) \<and> \<not> sublist ''hwp5'' (lower t)
             \<and> lower t \<noteq> ''hwp'' \<and> \<not> suffix ''.hwp'' (lower t)"
    by code_simp
  have t: "sublist ''hwpx'' (lower ''HWPX'')"
    by code_simp
  show ?thesis
    using normalize_file_type_first_recognised [OF c b] t by simp
qed

text \<open>
  The claim as written fails: with a type object whose string form is \<open>hwp3\<close> and the file
  \<open>report.hwpx\<close>, the candidate \<open>hwp3\<close> contains \<open>hwp\<close> and the token is not \<open>hwp\<close>.
\<close>

theorem contains_hwp_counterexample:
  "''hwp3'' \<in> set (file_type_candidates (Some \<lparr>ft_str = ''hwp3'', ft_name = None, ft_value = None\<rparr>) ''report.hwpx'')
   \<and> sublist ''hwp'' (lower ''hwp3'')
   \<and> normalize_file_type (Some \<lparr>ft_str = ''hwp3'', ft_name = None, ft_value = None\<rparr>) ''report.hwpx'' \<noteq> ''hwp''"
  by code_simp

section \<open>Structured errors and the containment layers\<close>

text \<open>
  The single-file loader lets a structured loader error through as it is: the \<open>except\<close>
  clause re-raises it, and \<open>_handle_runtime_error\<close> re-raises one it is given.
\<close>

lemma contain_keeps_loader_error:
  "raised r = Some (HwpHwpxLoaderError message cause) \<Longrightarrow> contain lo fp r = r"
  by (simp add: contain_def)

lemma handle_runtime_error_keeps_loader_error:
  "on_error lo = ''raise'' \<Longrightarrow>
   handle_runtime_error lo fp (HwpHwpxLoaderError message cause)
     = ([], Some (HwpHwpxLoaderError message cause))"
  by (simp add: handle_runtime_error_def)

text \<open>
  Claim C3. A structured loader error should pass every containment layer unchanged. The
  directory loader does not do so: for an encrypted file under the default policies
  (\<open>on_encrypted = "raise"\<close>, \<open>on_error = "raise"\<close>) the single-file loader raises the
  structured error \<open>Document skipped because it is encrypted: docs/a.hwpx\<close>, and the
  directory loader raises a new structured error \<open>Failed to load file docs/a.hwpx:
  HwpHwpxLoaderError\<close> whose cause is the first one.
\<close>

theorem directory_rewraps_loader_error:
  "raised (lazy_load (fake_env encrypted_reader)
             (loader_kwargs.extend default_kwargs (loader.fields ''docs/a.hwpx'')))
     = Some (HwpHwpxLoaderError ''Document skipped because it is encrypted: docs/a.hwpx'' None)
   \<and> raised (directory_lazy_load (fake_env encrypted_reader) (docs_directory default_kwargs))
     = Some (HwpHwpxLoaderError ''Failed to load file docs/a.hwpx: HwpHwpxLoaderError''
              (Some (HwpHwpxLoaderError ''Document skipped because it is encrypted: docs/a.hwpx'' None)))"
  by code_simp

section \<open>Image materialization\<close>

text \<open>
  Claim C9, as amended. When the persistence mode is not \<open>save_and_reference\<close> or no target
  directory is configured, image materialization returns the descriptive string
  \<open>{name} ({format}) from {source file name}\<close>, records the name and the format in the
  metadata, and performs no file system effect. When the mode is \<open>save_and_reference\<close> and a
  directory is configured, the call of \<open>mkdir\<close> on that directory comes first, whatever the
  handle can do. For a handle without a save capability, when \<open>mkdir\<close> succeeds, nothing
  else touches the file system, and the result is the same descriptive string unless the
  output path cannot be computed (\<open>with_suffix\<close> refuses the format as the extension of a
  name that has none), in which case that exception is raised.
\<close>

theorem materialize_image_described:
  "(image_document_mode lo \<noteq> ''save_and_reference'' \<or> images_dir lo = None \<longrightarrow>
      materialize_image env lo fp i img md
        = ([], Inr (resolved_name i img @ '' ('' @ image_fmt img @ '') from '' @ path_name fp,
                    md(''filename'' \<mapsto> MStr (resolved_name i img),
                       ''image_format'' \<mapsto> MStr (image_fmt img)))))
   \<and> (image_document_mode lo = ''save_and_reference'' \<and> images_dir lo = Some dir \<longrightarrow>
        (\<exists>rest result. materialize_image env lo fp i img md = (Mkdir dir # rest, result)))
   \<and> (image_document_mode lo = ''save_and_reference'' \<and> images_dir lo = Some dir
        \<and> img_save img = None \<and> mkdir env dir = None \<longrightarrow>
        materialize_image env lo fp i img md
          = ([Mkdir dir],
             case output_path_for dir (resolved_name i img) (image_fmt img) of
               Inl e \<Rightarrow> Inl e
             | Inr output_path \<Rightarrow>
                 Inr (resolved_name i img @ '' ('' @ image_fmt img @ '') from '' @ path_name fp,
                      md(''filename'' \<mapsto> MStr (resolved_name i img),
                         ''image_format'' \<mapsto> MStr (image_fmt img)))))"
proof (intro conjI impI)
  assume "image_document_mode lo \<noteq> ''save_and_reference'' \<or> images_dir lo = None"
  then have "(if image_document_mode lo = ''save_and_reference'' then images_dir lo else None) = None"
    by auto
  then show "materialize_image env lo fp i img md
        = ([], Inr (resolved_name i img @ '' ('' @ image_fmt img @ '') from '' @ path_name fp,
                    md(''filename'' \<mapsto> MStr (resolved_name i img),
                       ''image_format'' \<mapsto> MStr (image_fmt img))))"
    by (simp add: materialize_image_def Let_def)
next
  assume "image_document_mode lo = ''save_and_reference'' \<and> images_dir lo = Some dir"
  then have conf: "(if image_document_mode lo = ''save_and_reference'' then images_dir lo else None) = Some dir"
    by simp
  show "\<exists>rest result. materialize_image env lo fp i img md = (Mkdir dir # rest, result)"
  proof (cases "mkdir env dir")
    case (Some e)
    then show ?thesis
      using conf by (simp add: materialize_image_def Let_def)
  next
    case None
    note made = this
    show ?thesis
    proof (cases "output_path_for dir (resolved_name i img) (image_fmt img)")
      case (Inl e)
      then show ?thesis
        using conf made by (simp add: materialize_image_def Let_def)
    next
      case (Inr output_path)
      note out = this
      show ?thesis
      proof (cases "img_save img")
        case None
        then show ?thesis
          using conf made out by (simp add: materialize_image_def Let_def)
      next
        case (Some save)
        then show ?thesis
          using conf made out
          by (cases "save output_path") (simp_all add: materialize_image_def Let_def)
      qed
    qed
  qed
next
  assume "image_document_mode lo = ''save_and_reference'' \<and> images_dir lo = Some dir
        \<and> img_save img = None \<and> mkdir env dir = None"
  then have conf: "(if image_document_mode lo = ''save_and_reference'' then images_dir lo else None) = Some dir"
    and bare: "img_save img = None" and made: "mkdir env dir = None"
    by simp_all
  show "materialize_image env lo fp i img md
          = ([Mkdir dir],
             case output_path_for dir (resolved_name i img) (image_fmt img) of
               Inl e \<Rightarrow> Inl e
             | Inr output_path \<Rightarrow>
                 Inr (resolved_name i img @ '' ('' @ image_fmt img @ '') from '' @ path_name fp,
                      md(''filename'' \<mapsto> MStr (resolved_name i img),
                         ''image_format'' \<mapsto> MStr (image_fmt img))))"
    using conf bare made
    by (cases "output_path_for dir (resolved_name i img) (image_fmt img)")
       (simp_all add: materialize_image_def Let_def)
qed

lemma fake_image_names:
  "resolved_name 0 fake_image = ''diagram.png''"
  "image_fmt fake_image = ''png''"
  "resolved_name 0 (fake_image\<lparr>img_save := None\<rparr>) = ''diagram.png''"
  "image_fmt (fake_image\<lparr>img_save := None\<rparr>) = ''png''"
  "output_path_for ''out'' ''diagram.png'' ''png'' = Inr ''out/diagram.png''"
  by code_simp+

lemma slash_image_names:
  "resolved_name 0 slash_image = ''diagram''"
  "image_fmt slash_image = ''p/g''"
  "output_path_for ''out'' ''diagram'' ''p/g''
     = Inl (PyException ''ValueError'' (''Invalid suffix '' @ [CHR 0x27] @ ''.p/g'' @ [CHR 0x27]))"
  by code_simp+

theorem materialize_image_described_witness:
  "materialize_image (fake_env fake_reader) (sample_loader default_kwargs)
      ''/tmp/sample.hwp'' 0 fake_image Map.empty
     = ([], Inr (''diagram.png (png) from sample.hwp'',
                 [''filename'' \<mapsto> MStr ''diagram.png'', ''image_format'' \<mapsto> MStr ''png'']))
   \<and> (\<exists>rest result. materialize_image (fake_env fake_reader) (sample_loader saving_kwargs)
          ''/tmp/sample.hwp'' 0 fake_image Map.empty = (Mkdir ''out'' # rest, result))
   \<and> materialize_image (fake_env fake_reader) (sample_loader saving_kwargs)
        ''/tmp/sample.hwp'' 0 (fake_image\<lparr>img_save := None\<rparr>) Map.empty
     = ([Mkdir ''out''],
        Inr (''diagram.png (png) from sample.hwp'',
             [''filename'' \<mapsto> MStr ''diagram.png'', ''image_format'' \<mapsto> MStr ''png'']))
   \<and> materialize_image (fake_env fake_reader) (sample_loader saving_kwargs)
        ''/tmp/sample.hwp'' 0 slash_image Map.empty
     = ([Mkdir ''out''],
        Inl (PyException ''ValueError'' (''Invalid suffix '' @ [CHR 0x27] @ ''.p/g'' @ [CHR 0x27])))"
proof -
  have plain: "image_document_mode (sample_loader default_kwargs) \<noteq> ''save_and_reference''
      \<or> images_dir (sample_loader default_kwargs) = None"
    by (simp add: sample_loader_simps default_kwargs_def)
  have saving: "image_document_mode (sample_loader saving_kwargs) = ''save_and_reference''
      \<and> images_dir (sample_loader saving_kwargs) = Some ''out''"
    by (simp add: sample_loader_simps saving_kwargs_def default_kwargs_def)
  have made: "mkdir (fake_env fake_reader) ''out'' = None"
    by (simp add: fake_env_def)
  have bare: "img_save (fake_image\<lparr>img_save := None\<rparr>) = None" "img_save slash_image = None"
    by (simp_all add: slash_image_def)
  show ?thesis
    using materialize_image_described [of "sample_loader default_kwargs" "fake_env fake_reader"
            "''/tmp/sample.hwp''" 0 fake_image Map.empty "''out''"]
          materialize_image_described [of "sample_loader saving_kwargs" "fake_env fake_reader"
            "''/tmp/sample.hwp''" 0 fake_image Map.empty "''out''"]
          materialize_image_described [of "sample_loader saving_kwargs" "fake_env fake_reader"
            "''/tmp/sample.hwp''" 0 "fake_image\<lparr>img_save := None\<rparr>" Map.empty "''out''"]
          materialize_image_described [of "sample_loader saving_kwargs" "fake_env fake_reader"
            "''/tmp/sample.hwp''" 0 slash_image Map.empty "''out''"]
          plain saving made bare
    by (simp add: fake_image_names slash_image_names sample_path)
qed

text \<open>
  The claim as written fails in its third case: with the mode \<open>save_and_reference\<close>, the
  directory \<open>out\<close> configured and an image handle without a save capability, \<open>mkdir\<close> is
  called on the directory before the handle is looked at.
\<close>

theorem materialize_image_mkdir_counterexample:
  "img_save (fake_image\<lparr>img_save := None\<rparr>) = None
   \<and> fst (materialize_image (fake_env fake_reader)
            (sample_loader (default_kwargs\<lparr>image_document_mode := ''save_and_reference'', images_dir := Some ''out''\<rparr>))
            ''/tmp/sample.hwp'' 0 (fake_image\<lparr>img_save := None\<rparr>) Map.empty)
       = [Mkdir ''out'']"
  by code_simp
section \<open>The directory loader's file list\<close>

lemma normalize_extensions_map:
  "normalize_extensions exts = Inr normalized \<Longrightarrow>
   normalized = map (\<lambda>e. if prefix ''.'' (lower (strip e)) then lower (strip e)
                          else ''.'' @ lower (strip e)) exts
   \<and> (\<forall>e \<in> set exts. lower (strip e) \<noteq> [])"
proof (induction exts arbitrary: normalized)
  case Nil
  then show ?case by simp
next
  case (Cons e es)
  then show ?case
    by (auto simp: normalize_extension_def Let_def split: sum.splits if_splits)
qed

lemma collect_files_sort:
  "glob_candidates env dl = Inr candidates \<Longrightarrow>
   collect_files env dl =
     Inr (sort (filter (\<lambda>p. is_file env p \<and> lower (path_suffix p) \<in> set (extensions dl))
                  candidates))"
  by (simp add: collect_files_def)

text \<open>
  The documents of a directory scan are those of its files, one file after the other; under
  the policy \<open>raise\<close> the scan ends with the first file that fails.
\<close>

lemma load_files_docs:
  "docs (load_files env dl files)
     = concat (map (\<lambda>fp. docs (load_one env (loader_kwargs dl) fp))
         (if dir_on_error dl = ''raise''
          then take (Suc (length (takeWhile (\<lambda>fp. raised (load_one env (loader_kwargs dl) fp) = None) files)))
                 files
          else files))"
proof (induction files)
  case Nil
  then show ?case by simp
next
  case (Cons fp rest)
  show ?case
  proof (cases "raised (load_one env (loader_kwargs dl) fp)")
    case None
    then show ?thesis
      using Cons.IH by (simp add: Let_def)
  next
    case (Some exc)
    then show ?thesis
      using Cons.IH by (simp add: Let_def)
  qed
qed

text \<open>
  Claim C6, as amended. Of the paths that \<open>Path.glob\<close> enumerates for the matching rule
  under the root (the pattern as given when the scan is recursive, and with its recursive
  markers stripped otherwise, so that entries of subdirectories are then no candidates),
  the file list holds exactly the regular files whose lower-cased extension is in the
  configured extension set (each configured extension itself trimmed, lower-cased and given
  its leading dot at construction), each as often as it is enumerated; the list is sorted
  ascending by path string, and it is the same list for every enumeration order of the same
  paths. The files of the list are loaded in that order, all of them unless the policy is
  \<open>raise\<close> and a file fails, which ends the scan after that file. When \<open>Path.glob\<close> raises,
  its exception leaves the directory loader as it is.
\<close>

theorem collect_files_filtered_sorted:
  "(glob_candidates env dl = Inr candidates \<longrightarrow>
      (\<exists>files. collect_files env dl = Inr files
         \<and> mset files
             = filter_mset (\<lambda>p. is_file env p \<and> lower (path_suffix p) \<in> set (extensions dl))
                 (mset candidates)
         \<and> sorted files
         \<and> (is_file env' = is_file env \<and> glob_candidates env' dl = Inr candidates'
              \<and> mset candidates' = mset candidates
             \<longrightarrow> collect_files env' dl = Inr files)
         \<and> (exists env (dir_path dl) \<and> is_dir env (dir_path dl) \<longrightarrow>
              docs (directory_lazy_load env dl)
                = concat (map (\<lambda>fp. docs (load_one env (loader_kwargs dl) fp))
                    (if dir_on_error dl = ''raise''
                     then take (Suc (length (takeWhile
                                  (\<lambda>fp. raised (load_one env (loader_kwargs dl) fp) = None) files)))
                            files
                     else files)))))
   \<and> (glob_candidates env dl = Inl e \<and> exists env (dir_path dl) \<and> is_dir env (dir_path dl)
        \<longrightarrow> directory_lazy_load env dl = \<lparr>docs = [], events = [], raised = Some e\<rparr>)
   \<and> (HwpHwpxDirectoryLoader_init dp pattern rec exts kw = Inr dl
        \<longrightarrow> extensions dl = map (\<lambda>e. if prefix ''.'' (lower (strip e)) then lower (strip e)
                                       else ''.'' @ lower (strip e)) exts)"
proof (intro conjI impI)
  assume cands: "glob_candidates env dl = Inr candidates"
  let ?P = "\<lambda>p. is_file env p \<and> lower (path_suffix p) \<in> set (extensions dl)"
  let ?files = "sort (filter ?P candidates)"
  have files: "collect_files env dl = Inr ?files"
    using cands by (rule collect_files_sort)
  have content: "mset ?files = filter_mset ?P (mset candidates)"
    by simp
  have order: "sorted ?files"
    by simp
  have stable: "collect_files env' dl = Inr ?files"
    if same: "is_file env' = is_file env \<and> glob_candidates env' dl = Inr candidates'
              \<and> mset candidates' = mset candidates"
  proof -
    have "mset ?files = mset (filter ?P candidates')"
      using same by simp
    then have "sort (filter ?P candidates') = ?files"
      by (rule properties_for_sort) simp
    then show ?thesis
      using same collect_files_sort [of env' dl candidates'] by simp
  qed
  have scan: "docs (directory_lazy_load env dl)
                = concat (map (\<lambda>fp. docs (load_one env (loader_kwargs dl) fp))
                    (if dir_on_error dl = ''raise''
                     then take (Suc (length (takeWhile
                                  (\<lambda>fp. raised (load_one env (loader_kwargs dl) fp) = None) ?files)))
                            ?files
                     else ?files))"
    if "exists env (dir_path dl) \<and> is_dir env (dir_path dl)"
    using that files load_files_docs [of env dl ?files]
    by (simp add: directory_lazy_load_def)
  show "\<exists>files. collect_files env dl = Inr files
         \<and> mset files = filter_mset ?P (mset candidates)
         \<and> sorted files
         \<and> (is_file env' = is_file env \<and> glob_candidates env' dl = Inr candidates'
              \<and> mset candidates' = mset candidates
             \<longrightarrow> collect_files env' dl = Inr files)
         \<and> (exists env (dir_path dl) \<and> is_dir env (dir_path dl) \<longrightarrow>
              docs (directory_lazy_load env dl)
                = concat (map (\<lambda>fp. docs (load_one env (loader_kwargs dl) fp))
                    (if dir_on_error dl = ''raise''
                     then take (Suc (length (takeWhile
                                  (\<lambda>fp. raised (load_one env (loader_kwargs dl) fp) = None) files)))
                            files
                     else files)))"
    using files content order stable scan by blast
next
  assume "glob_candidates env dl = Inl e \<and> exists env (dir_path dl) \<and> is_dir env (dir_path dl)"
  then show "directory_lazy_load env dl = \<lparr>docs = [], events = [], raised = Some e\<rparr>"
    by (simp add: directory_lazy_load_def collect_files_def)
next
  assume "HwpHwpxDirectoryLoader_init dp pattern rec exts kw = Inr dl"
  then obtain normalized where n: "normalize_extensions exts = Inr normalized"
    and dl: "extensions dl = normalized"
    by (auto simp: HwpHwpxDirectoryLoader_init_def split: sum.splits option.splits)
  show "extensions dl = map (\<lambda>e. if prefix ''.'' (lower (strip e)) then lower (strip e)
                                       else ''.'' @ lower (strip e)) exts"
    using normalize_extensions_map [OF n] dl by simp
qed

lemma docs_directory_init:
  "HwpHwpxDirectoryLoader_init ''docs'' ''**/*'' True [''HWP'', '' .hwpx ''] default_kwargs
     = Inr (docs_directory default_kwargs)"
proof -
  have "normalize_extensions [''HWP'', '' .hwpx ''] = Inr [''.hwp'', ''.hwpx'']"
    by code_simp
  moreover have "validate_literal (on_error default_kwargs) ''on_error'' VALID_ERROR_POLICIES = None"
    by (simp add: validate_literal_def default_kwargs_def VALID_ERROR_POLICIES_def)
  moreover have "Path ''docs'' = ''docs''"
    by code_simp
  ultimately show ?thesis
    by (simp add: HwpHwpxDirectoryLoader_init_def docs_directory_def)
qed

lemma docs_directory_candidates:
  "glob_candidates (fake_env fake_reader) (docs_directory default_kwargs)
     = Inr [''docs/b.hwp'', ''docs/ignored.txt'', ''docs/sub'', ''docs/sub/c.HWP'', ''docs/a.hwpx'']"
  "glob_candidates (shuffled_env fake_reader) (docs_directory default_kwargs)
     = Inr [''docs/sub/c.HWP'', ''docs/a.hwpx'', ''docs/sub'', ''docs/ignored.txt'', ''docs/b.hwp'']"
  "glob_candidates (fake_env fake_reader) ((docs_directory default_kwargs)\<lparr>glob_pattern := ''**/''\<rparr>\<lparr>recursive := False\<rparr>)
     = Inl (PyException ''ValueError'' (''Unacceptable pattern: '' @ [CHR 0x27, CHR 0x27]))"
  by code_simp+

lemma docs_directory_files:
  "collect_files (fake_env fake_reader) (docs_directory default_kwargs)
     = Inr [''docs/a.hwpx'', ''docs/b.hwp'', ''docs/sub/c.HWP'']"
  by code_simp

lemma docs_directory_sources:
  "map (\<lambda>d. metadata d ''source'')
     (concat (map (\<lambda>fp. docs (load_one (fake_env fake_reader) (loader_kwargs (docs_directory default_kwargs)) fp))
        (if dir_on_error (docs_directory default_kwargs) = ''raise''
         then take (Suc (length (takeWhile
                 (\<lambda>fp. raised (load_one (fake_env fake_reader) (loader_kwargs (docs_directory default_kwargs)) fp) = None)
                 [''docs/a.hwpx'', ''docs/b.hwp'', ''docs/sub/c.HWP''])))
                [''docs/a.hwpx'', ''docs/b.hwp'', ''docs/sub/c.HWP'']
         else [''docs/a.hwpx'', ''docs/b.hwp'', ''docs/sub/c.HWP''])))
   = [Some (MStr ''docs/a.hwpx''), Some (MStr ''docs/b.hwp''), Some (MStr ''docs/sub/c.HWP'')]"
  by code_simp

theorem collect_files_filtered_sorted_witness:
  "collect_files (shuffled_env fake_reader) (docs_directory default_kwargs)
     = Inr [''docs/a.hwpx'', ''docs/b.hwp'', ''docs/sub/c.HWP'']
   \<and> map (\<lambda>d. metadata d ''source'')
       (docs (directory_lazy_load (fake_env fake_reader) (docs_directory default_kwargs)))
     = [Some (MStr ''docs/a.hwpx''), Some (MStr ''docs/b.hwp''), Some (MStr ''docs/sub/c.HWP'')]
   \<and> directory_lazy_load (fake_env fake_reader)
        ((docs_directory default_kwargs)\<lparr>glob_pattern := ''**/''\<rparr>\<lparr>recursive := False\<rparr>)
     = \<lparr>docs = [], events = [],
        raised = Some (PyException ''ValueError'' (''Unacceptable pattern: '' @ [CHR 0x27, CHR 0x27]))\<rparr>
   \<and> extensions (docs_directory default_kwargs)
      = map (\<lambda>e. if prefix ''.'' (lower (strip e)) then lower (strip e) else ''.'' @ lower (strip e))
          [''HWP'', '' .hwpx '']"
proof -
  let ?dl = "docs_directory default_kwargs"
  let ?bad = "(docs_directory default_kwargs)\<lparr>glob_pattern := ''**/''\<rparr>\<lparr>recursive := False\<rparr>"
  have files: "is_file (shuffled_env fake_reader) = is_file (fake_env fake_reader)"
    by (simp add: shuffled_env_def)
  have entries: "mset [''docs/sub/c.HWP'', ''docs/a.hwpx'', ''docs/sub'', ''docs/ignored.txt'', ''docs/b.hwp'']
        = mset [''docs/b.hwp'', ''docs/ignored.txt'', ''docs/sub'', ''docs/sub/c.HWP'', ''docs/a.hwpx'']"
    by simp
  have root: "exists (fake_env fake_reader) (dir_path ?dl) \<and> is_dir (fake_env fake_reader) (dir_path ?dl)"
    "exists (fake_env fake_reader) (dir_path ?bad) \<and> is_dir (fake_env fake_reader) (dir_path ?bad)"
    by (simp_all add: fake_env_def docs_directory_def)
  have good: "collect_files (shuffled_env fake_reader) ?dl
                = Inr [''docs/a.hwpx'', ''docs/b.hwp'', ''docs/sub/c.HWP'']
      \<and> map (\<lambda>d. metadata d ''source'') (docs (directory_lazy_load (fake_env fake_reader) ?dl))
        = [Some (MStr ''docs/a.hwpx''), Some (MStr ''docs/b.hwp''), Some (MStr ''docs/sub/c.HWP'')]
      \<and> extensions ?dl
        = map (\<lambda>e. if prefix ''.'' (lower (strip e)) then lower (strip e) else ''.'' @ lower (strip e))
            [''HWP'', '' .hwpx '']"
    using collect_files_filtered_sorted [of "fake_env fake_reader" ?dl
            "[''docs/b.hwp'', ''docs/ignored.txt'', ''docs/sub'', ''docs/sub/c.HWP'', ''docs/a.hwpx'']"
            "shuffled_env fake_reader"
            "[''docs/sub/c.HWP'', ''docs/a.hwpx'', ''docs/sub'', ''docs/ignored.txt'', ''docs/b.hwp'']"
            SkipFile "''docs''" "''**/*''" True "[''HWP'', '' .hwpx '']" default_kwargs]
          files entries root(1) docs_directory_init docs_directory_candidates(1,2)
          docs_directory_files docs_directory_sources
    by auto
  have failing: "directory_lazy_load (fake_env fake_reader) ?bad
     = \<lparr>docs = [], events = [],
        raised = Some (PyException ''ValueError'' (''Unacceptable pattern: '' @ [CHR 0x27, CHR 0x27]))\<rparr>"
    using collect_files_filtered_sorted [of "fake_env fake_reader" ?bad "[]" "fake_env fake_reader" "[]"
            "PyException ''ValueError'' (''Unacceptable pattern: '' @ [CHR 0x27, CHR 0x27])"
            "''docs''" "''**/*''" True "[]" default_kwargs]
          root(2) docs_directory_candidates(3)
    by simp
  show ?thesis
    using good failing by blast
qed

text \<open>
  The claim as written fails: in the directory of the repository's non-recursive test, the
  regular file \<open>docs/nested/child.hwpx\<close> lies under the root and has a configured
  extension, and a scan that is not recursive leaves it out.
\<close>

theorem collect_files_nested_counterexample:
  "exists (nested_env fake_reader) ''docs/nested/child.hwpx''
   \<and> is_file (nested_env fake_reader) ''docs/nested/child.hwpx''
   \<and> prefix (dir_path (flat_directory default_kwargs) @ ''/'') ''docs/nested/child.hwpx''
   \<and> lower (path_suffix ''docs/nested/child.hwpx'') \<in> set (extensions (flat_directory default_kwargs))
   \<and> collect_files (nested_env fake_reader) (flat_directory default_kwargs) = Inr [''docs/top.hwp'']
   \<and> map (\<lambda>d. metadata d ''source'')
       (docs (directory_lazy_load (nested_env fake_reader) (flat_directory default_kwargs)))
     = [Some (MStr ''docs/top.hwp'')]"
  by code_simp
section \<open>Hyperlinks without text and url\<close>

lemma hyperlink_documents_skip:
  assumes "normalize_hyperlink h = ([], [])"
  shows "hyperlink_documents md index (before @ h # after) = hyperlink_documents md index (before @ after)"
  using assms
proof (induction before arbitrary: index)
  case Nil
  then show ?case by simp
next
  case (Cons b bs)
  then show ?case by (simp split: prod.splits)
qed

text \<open>
  Claim C7. In elements mode a hyperlink record whose normalized text and url are both
  empty yields no document and leaves the element index as it is: the loop continues with
  the same index, and the documents of the whole file (contents, element types and element
  indices alike) are those of the same result without that record.
\<close>

theorem empty_hyperlink_skipped:
  assumes "normalize_hyperlink h = ([], [])"
  shows "hyperlink_documents md index (h # rest) = hyperlink_documents md index rest
       \<and> (res_hyperlinks res = Some (before @ h # after) \<longrightarrow>
            build_element_documents env lo fp rd res md
              = build_element_documents env lo fp rd (res\<lparr>res_hyperlinks := Some (before @ after)\<rparr>) md)"
proof (intro conjI impI)
  show "hyperlink_documents md index (h # rest) = hyperlink_documents md index rest"
    using assms by simp
next
  assume links: "res_hyperlinks res = Some (before @ h # after)"
  let ?res' = "res\<lparr>res_hyperlinks := Some (before @ after)\<rparr>"
  have same: "extract_body_text rd ?res' = extract_body_text rd res"
    "collect_tables rd ?res' = collect_tables rd res"
    "collect_notes ?res' = collect_notes res"
    "collect_memos ?res' = collect_memos res"
    by (simp_all add: extract_body_text_def collect_tables_def collect_notes_def collect_memos_def)
  have links': "hyperlink_documents md' i (collect_hyperlinks ?res') = hyperlink_documents md' i (collect_hyperlinks res)"
    for md' i
    using links hyperlink_documents_skip [OF assms] by (simp add: collect_hyperlinks_def)
  show "build_element_documents env lo fp rd res md = build_element_documents env lo fp rd ?res' md"
    unfolding build_element_documents_def same links' by (rule refl)
qed

lemma fake_result_elements:
  "map (\<lambda>d. (metadata d ''element_type'', metadata d ''element_index''))
     (docs (build_element_documents (fake_env fake_reader)
              (sample_loader (default_kwargs\<lparr>mode := ''elements'', include_images := True\<rparr>))
              ''/tmp/sample.hwp'' fake_reader fake_result Map.empty))
   = [(Some (MStr ''body''), Some (MInt 0)), (Some (MStr ''table''), Some (MInt 1)),
      (Some (MStr ''footnote''), Some (MInt 2)), (Some (MStr ''endnote''), Some (MInt 3)),
      (Some (MStr ''memo''), Some (MInt 4)), (Some (MStr ''hyperlink''), Some (MInt 5)),
      (Some (MStr ''image''), Some (MInt 6))]"
  by code_simp

theorem empty_hyperlink_skipped_witness:
  "map (\<lambda>d. (metadata d ''element_type'', metadata d ''element_index''))
     (docs (build_element_documents (fake_env fake_reader)
              (sample_loader (default_kwargs\<lparr>mode := ''elements'', include_images := True\<rparr>))
              ''/tmp/sample.hwp'' fake_reader blank_link_result Map.empty))
   = [(Some (MStr ''body''), Some (MInt 0)), (Some (MStr ''table''), Some (MInt 1)),
      (Some (MStr ''footnote''), Some (MInt 2)), (Some (MStr ''endnote''), Some (MInt 3)),
      (Some (MStr ''memo''), Some (MInt 4)), (Some (MStr ''hyperlink''), Some (MInt 5)),
      (Some (MStr ''image''), Some (MInt 6))]"
proof -
  have blank: "normalize_hyperlink (HObj None (Some '' '')) = ([], [])"
    by code_simp
  have links: "res_hyperlinks blank_link_result
        = Some ([] @ HObj None (Some '' '') # [HSeq [Some ''site'', Some ''https://example.com'']])"
    by (simp add: blank_link_result_def)
  have without: "blank_link_result\<lparr>res_hyperlinks := Some ([] @ [HSeq [Some ''site'', Some ''https://example.com'']])\<rparr>
        = fake_result"
    by (simp add: blank_link_result_def fake_result_def)
  show ?thesis
    using empty_hyperlink_skipped [OF blank, where res = blank_link_result and before = "[]"
            and after = "[HSeq [Some ''site'', Some ''https://example.com'']]"
            and env = "fake_env fake_reader"
            and lo = "sample_loader (default_kwargs\<lparr>mode := ''elements'', include_images := True\<rparr>)"
            and fp = "''/tmp/sample.hwp''" and rd = fake_reader and md = Map.empty
            and index = 0 and rest = "[]"]
          links without fake_result_elements
    by simp
qed

section \<open>Single mode\<close>










section \<open>Elements mode\<close>










end
